theory Spec2Isabelle
  imports Main
begin

section \<open>Python values used by bot.py\<close>

text \<open>
  A Python \<open>str\<close> is a sequence of Unicode code points, so it is modelled as a list of
  naturals. Literals of the source that are plain ASCII are written with \<open>ascii\<close>.
  Python integers are unbounded and are modelled by \<open>int\<close>.
\<close>

type_synonym pystr = "nat list"

definition ascii :: "string \<Rightarrow> pystr" where
  "ascii s = map of_char s"

definition in_ranges :: "nat \<Rightarrow> (nat \<times> nat) list \<Rightarrow> bool" where
  "in_ranges c rs = list_ex (\<lambda>(lo, hi). lo \<le> c \<and> c \<le> hi) rs"

text \<open>The code points for which \<open>str.isspace\<close> holds (the set \<open>str.strip()\<close> removes).\<close>

definition space_ranges :: "(nat \<times> nat) list" where
  "space_ranges =
    [(9, 13), (28, 32), (133, 133), (160, 160), (5760, 5760), (8192, 8202), (8232, 8233),
     (8239, 8239), (8287, 8287), (12288, 12288)]"

text \<open>
  The code points of Numeric_Type Decimal (Unicode 14.0): every range is a whole number of
  runs \<open>0..9\<close>, so the digit value of \<open>c\<close> in a range starting at \<open>lo\<close> is
  \<open>(c - lo) mod 10\<close>.
\<close>

definition decimal_ranges :: "(nat \<times> nat) list" where
  "decimal_ranges =
    [(48, 57), (1632, 1641), (1776, 1785), (1984, 1993), (2406, 2415), (2534, 2543),
     (2662, 2671), (2790, 2799), (2918, 2927), (3046, 3055), (3174, 3183), (3302, 3311),
     (3430, 3439), (3558, 3567), (3664, 3673), (3792, 3801), (3872, 3881), (4160, 4169),
     (4240, 4249), (6112, 6121), (6160, 6169), (6470, 6479), (6608, 6617), (6784, 6793),
     (6800, 6809), (6992, 7001), (7088, 7097), (7232, 7241), (7248, 7257), (42528, 42537),
     (43216, 43225), (43264, 43273), (43472, 43481), (43504, 43513), (43600, 43609),
     (44016, 44025), (65296, 65305), (66720, 66729), (68912, 68921), (69734, 69743),
     (69872, 69881), (69942, 69951), (70096, 70105), (70384, 70393), (70736, 70745),
     (70864, 70873), (71248, 71257), (71360, 71369), (71472, 71481), (71904, 71913),
     (72016, 72025), (72784, 72793), (73040, 73049), (73120, 73129), (92768, 92777),
     (92864, 92873), (93008, 93017), (120782, 120831), (123200, 123209), (123632, 123641),
     (125264, 125273), (130032, 130041)]"

text \<open>
  The code points of Numeric_Type Digit that are not Decimal (superscripts, circled digits
  and the like): \<open>str.isdigit\<close> accepts them, \<open>int()\<close> does not.
\<close>

definition digit_only_ranges :: "(nat \<times> nat) list" where
  "digit_only_ranges =
    [(178, 179), (185, 185), (4969, 4977), (6618, 6618), (8304, 8304), (8308, 8313),
     (8320, 8329), (9312, 9320), (9332, 9340), (9352, 9360), (9450, 9450), (9461, 9469),
     (9471, 9471), (10102, 10110), (10112, 10120), (10122, 10130), (68160, 68163),
     (69216, 69224), (69714, 69722), (127232, 127242)]"

definition py_isspace :: "nat \<Rightarrow> bool" where
  "py_isspace c = in_ranges c space_ranges"

definition decimal_value :: "nat \<Rightarrow> nat option" where
  "decimal_value c =
     (case find (\<lambda>(lo, hi). lo \<le> c \<and> c \<le> hi) decimal_ranges of
        None \<Rightarrow> None
      | Some (lo, hi) \<Rightarrow> Some ((c - lo) mod 10))"

definition py_isdigit_char :: "nat \<Rightarrow> bool" where
  "py_isdigit_char c = (in_ranges c decimal_ranges \<or> in_ranges c digit_only_ranges)"

text \<open>\<open>s.isdigit()\<close>: at least one character, and every character a digit.\<close>

definition py_isdigit :: "pystr \<Rightarrow> bool" where
  "py_isdigit s = (s \<noteq> [] \<and> list_all py_isdigit_char s)"

text \<open>\<open>s.strip()\<close>: leading and trailing whitespace removed.\<close>

definition py_strip :: "pystr \<Rightarrow> pystr" where
  "py_strip s = rev (dropWhile py_isspace (rev (dropWhile py_isspace s)))"

text \<open>\<open>s.split(sep)\<close> for a one-character separator: always at least one piece.\<close>

fun py_split :: "nat \<Rightarrow> pystr \<Rightarrow> pystr list" where
  "py_split sep [] = [[]]"
| "py_split sep (c # cs) =
     (if c = sep then [] # py_split sep cs
      else (case py_split sep cs of
              [] \<Rightarrow> [[c]]
            | p # ps \<Rightarrow> (c # p) # ps))"

text \<open>\<open>s.split(sep, 1)\<close> when \<open>sep\<close> occurs in \<open>s\<close>: the text before the first
  separator and the text after it.\<close>

definition py_split1 :: "nat \<Rightarrow> pystr \<Rightarrow> pystr \<times> pystr" where
  "py_split1 sep s = (takeWhile (\<lambda>c. c \<noteq> sep) s, tl (dropWhile (\<lambda>c. c \<noteq> sep) s))"

text \<open>\<open>str(i)\<close> for an integer: its decimal digits, with a minus sign when negative.\<close>

fun nat_str :: "nat \<Rightarrow> pystr" where
  "nat_str n = (if n < 10 then [48 + n] else nat_str (n div 10) @ [48 + n mod 10])"

declare nat_str.simps [simp del]

definition py_str_int :: "int \<Rightarrow> pystr" where
  "py_str_int i = (if i < 0 then 45 # nat_str (nat (- i)) else nat_str (nat i))"

datatype http_error = NotFound | Forbidden | HTTPException

datatype exn = ValueError | IndexError | Http http_error

text \<open>
  \<open>int(s)\<close> for a string, base 10. CPython first maps the string to ASCII (a non-ASCII
  whitespace becomes a blank, a non-ASCII decimal digit its ASCII digit, any other
  non-ASCII character makes the literal invalid), then skips the C whitespace at both ends,
  reads an optional sign and then digits, where single underscores may stand between
  digits. The interpreter's optional limit on the number of digits is not modelled.
\<close>

definition c_isspace :: "nat \<Rightarrow> bool" where
  "c_isspace c = ((9 \<le> c \<and> c \<le> 13) \<or> c = 32)"

definition is_ascii_digit :: "nat \<Rightarrow> bool" where
  "is_ascii_digit c = (48 \<le> c \<and> c \<le> 57)"

fun to_ascii :: "pystr \<Rightarrow> pystr option" where
  "to_ascii [] = Some []"
| "to_ascii (c # cs) =
     (if c < 127 then map_option ((#) c) (to_ascii cs)
      else if py_isspace c then map_option ((#) 32) (to_ascii cs)
      else (case decimal_value c of
              None \<Rightarrow> None
            | Some d \<Rightarrow> map_option ((#) (48 + d)) (to_ascii cs)))"

fun digit_run :: "int \<Rightarrow> pystr \<Rightarrow> int option" where
  "digit_run v [] = Some v"
| "digit_run v [c] = (if is_ascii_digit c then Some (v * 10 + int (c - 48)) else None)"
| "digit_run v (c # d # ds) =
     (if c = 95 then (if is_ascii_digit d then digit_run (v * 10 + int (d - 48)) ds else None)
      else if is_ascii_digit c then digit_run (v * 10 + int (c - 48)) (d # ds)
      else None)"

definition py_int :: "pystr \<Rightarrow> exn + int" where
  "py_int s =
     (case to_ascii s of
        None \<Rightarrow> Inl ValueError
      | Some t \<Rightarrow>
          (let t1 = rev (dropWhile c_isspace (rev (dropWhile c_isspace t)));
               neg = (t1 \<noteq> [] \<and> hd t1 = 45);
               t2 = (if t1 \<noteq> [] \<and> (hd t1 = 43 \<or> hd t1 = 45) then tl t1 else t1)
           in (case t2 of
                 [] \<Rightarrow> Inl ValueError
               | c # cs \<Rightarrow>
                   if is_ascii_digit c
                   then (case digit_run (int (c - 48)) cs of
                           None \<Rightarrow> Inl ValueError
                         | Some v \<Rightarrow> Inr (if neg then - v else v))
                   else Inl ValueError)))"

text \<open>
  The values a JSON-like Python object can hold. A \<open>bool\<close> is an instance of \<open>int\<close>
  in Python (\<open>True\<close> counts as 1), which \<open>isinstance_int\<close> and \<open>int_value\<close> record.
  A finite float is kept as mantissa and binary exponent; no arithmetic is done on it.
\<close>

datatype pyval =
    PyNone
  | PyBool bool
  | PyInt int
  | PyFloat int int
  | PyStr pystr
  | PyList "pyval list"

fun isinstance_str :: "pyval \<Rightarrow> bool" where
  "isinstance_str (PyStr s) = True"
| "isinstance_str v = False"

fun isinstance_int :: "pyval \<Rightarrow> bool" where
  "isinstance_int (PyInt i) = True"
| "isinstance_int (PyBool b) = True"
| "isinstance_int v = False"

fun int_value :: "pyval \<Rightarrow> int" where
  "int_value (PyInt i) = i"
| "int_value (PyBool b) = (if b then 1 else 0)"
| "int_value v = 0"

fun str_value :: "pyval \<Rightarrow> pystr" where
  "str_value (PyStr s) = s"
| "str_value v = []"

section \<open>Outcome model\<close>

text \<open>An entry handed to \<open>validate_outcomes\<close> is a dict from keys to values.\<close>

type_synonym entry = "pystr \<rightharpoonup> pyval"

definition msg_empty :: pystr where
  "msg_empty = ascii ''You must provide at least one outcome.''"

definition msg_keys :: pystr where
  "msg_keys = ascii ''Each outcome must have 'name' and 'weight'.''"

definition msg_name :: pystr where
  "msg_name = ascii ''Outcome name must be a non-empty string.''"

definition msg_weight :: pystr where
  "msg_weight = ascii ''Outcome weight must be a non-negative integer.''"

definition msg_total :: "int \<Rightarrow> pystr" where
  "msg_total tot =
     ascii ''Outcome weights must total 100 (currently '' @ py_str_int tot @ ascii '').''"

text \<open>The loop of \<open>validate_outcomes\<close> (lines 72-79): the first failing check of the
  first failing entry returns its message; otherwise the running total is returned.\<close>

fun validate_loop :: "int \<Rightarrow> entry list \<Rightarrow> pystr + int" where
  "validate_loop tot [] = Inr tot"
| "validate_loop tot (e # es) =
     (case (e (ascii ''name''), e (ascii ''weight'')) of
        (Some n, Some w) \<Rightarrow>
          if \<not> isinstance_str n \<or> py_strip (str_value n) = [] then Inl msg_name
          else if \<not> isinstance_int w \<or> int_value w < 0 then Inl msg_weight
          else validate_loop (tot + int_value w) es
      | _ \<Rightarrow> Inl msg_keys)"

definition validate_outcomes :: "entry list \<Rightarrow> bool \<times> pystr" where
  "validate_outcomes outs =
     (if outs = [] then (False, msg_empty)
      else (case validate_loop 0 outs of
              Inl msg \<Rightarrow> (False, msg)
            | Inr tot \<Rightarrow>
                if tot \<noteq> 100 then (False, msg_total tot) else (True, ascii ''OK'')))"

text \<open>
  The outcomes the bot stores and draws from are the ones it built itself (the defaults
  and the lists \<open>setodds\<close> parses): dicts with exactly a string name and an integer weight.
\<close>

record outcome =
  name :: pystr
  weight :: int

definition outcome_dict :: "outcome \<Rightarrow> entry" where
  "outcome_dict x = [ascii ''name'' \<mapsto> PyStr (name x), ascii ''weight'' \<mapsto> PyInt (weight x)]"

text \<open>\<open>roll_d100\<close> and \<open>weighted_choice\<close> at a given sample \<open>r\<close> of
  \<open>secrets.randbelow(100)\<close>.\<close>

definition roll_d100_at :: "int \<Rightarrow> int" where
  "roll_d100_at r = r + 1"

fun choice_loop :: "int \<Rightarrow> int \<Rightarrow> outcome list \<Rightarrow> pystr option" where
  "choice_loop r cumulative [] = None"
| "choice_loop r cumulative (x # xs) =
     (if r < cumulative + weight x then Some (name x)
      else choice_loop r (cumulative + weight x) xs)"

definition weighted_choice_at :: "int \<Rightarrow> outcome list \<Rightarrow> exn + pystr" where
  "weighted_choice_at r outs =
     (case choice_loop r 0 outs of
        Some n \<Rightarrow> Inr n
      | None \<Rightarrow> (if outs = [] then Inl IndexError else Inr (name (last outs))))"

section \<open>Config store\<close>

text \<open>
  One record per guild, with the keys of \<open>default_guild_config\<close>. The optional ids are
  \<open>None\<close> or an integer; Python's truth test on them (\<open>if not x\<close>) also takes 0 for unset.
\<close>

record guild_config =
  trigger_emoji :: pystr
  trigger_message_id :: "int option"
  trigger_channel_id :: "int option"
  mod_channel_id :: "int option"
  outcomes :: "outcome list"

definition truthy :: "int option \<Rightarrow> bool" where
  "truthy v = (case v of None \<Rightarrow> False | Some i \<Rightarrow> i \<noteq> 0)"

text \<open>The default emoji is the single code point U+1F3B2 (game die).\<close>

definition default_guild_config :: guild_config where
  "default_guild_config =
     \<lparr> trigger_emoji = [127922],
       trigger_message_id = None,
       trigger_channel_id = None,
       mod_channel_id = None,
       outcomes =
         [\<lparr> name = ascii ''powers, curse'', weight = 25 \<rparr>,
          \<lparr> name = ascii ''powers, blessing'', weight = 25 \<rparr>,
          \<lparr> name = ascii ''no powers'', weight = 50 \<rparr>] \<rparr>"

section \<open>The chat platform as seen by the bot\<close>

record user =
  u_id :: int

datatype channel = TextChannel int | OtherChannel int

record message =
  author_id :: int
  content :: pystr

record guild =
  g_id :: int
  g_name :: pystr
  get_channel :: "int \<Rightarrow> channel option"
  get_member :: "int \<Rightarrow> user option"

record permissions =
  manage_messages :: bool
  administrator :: bool

text \<open>An interaction: its guild, and the guild permissions of the invoking user.\<close>

record interaction =
  i_guild :: "guild option"
  i_user :: "permissions option"

text \<open>A raw reaction event; \<open>emoji\<close> is the text \<open>str(payload.emoji)\<close> renders.\<close>

record reaction_event =
  user_id :: int
  guild_id :: "int option"
  channel_id :: int
  message_id :: int
  emoji :: pystr

text \<open>The private answers the commands send, by their message in the source.\<close>

datatype reply =
    UseInServer
  | NeedManageMessages
  | BadFormat
  | WeightNotInteger pystr
  | Invalid pystr
  | OddsUpdated "outcome list"
  | ModChannelNotSet
  | ModChannelNotFound
  | MessageIdNotNumber
  | MessageNotFound
  | NotOwnMessage
  | Edited

text \<open>
  The calls the bot makes on the platform, in order. A direct message carries the roll,
  the outcome, the trigger emoji and the guild's name; a log post carries the channel, the
  user, the roll, the outcome, whether the direct message was delivered and the trigger
  binding.
\<close>

datatype effect =
    Reply reply
  | FetchUser int
  | SendDM user int pystr pystr pystr
  | LogPost int user int pystr bool "int option" "int option"
  | FetchMessage int int
  | RemoveReaction int int pystr user
  | EditMessage int int pystr

text \<open>
  What the platform and the random source answer. \<open>randbelow P k n\<close> is the value the
  \<open>k\<close>-th call of \<open>secrets.randbelow\<close> returns when called with bound \<open>n\<close>.
\<close>

record platform =
  bot_user_id :: int
  get_guild :: "int \<Rightarrow> guild option"
  randbelow :: "nat \<Rightarrow> int \<Rightarrow> int"
  fetch_user :: "int \<Rightarrow> http_error + user"
  dm_error :: "int \<Rightarrow> http_error option"
  send_error :: "int \<Rightarrow> http_error option"
  fetch_error :: "int \<Rightarrow> int \<Rightarrow> http_error option"
  edit_error :: "int \<Rightarrow> int \<Rightarrow> http_error option"

text \<open>
  The mutable state: the global \<open>cfg\<close> dict, the content of the JSON file (\<open>None\<close> while
  it does not exist), the number of \<open>save_config\<close> calls, the number of random samples
  taken, the platform's messages by channel and message id, and the calls made so far.
\<close>

record world =
  cfg :: "pystr \<rightharpoonup> guild_config"
  disk :: "(pystr \<rightharpoonup> guild_config) option"
  saves :: nat
  drawn :: nat
  msgs :: "int \<times> int \<rightharpoonup> message"
  trace :: "effect list"

definition guild_key :: "int \<Rightarrow> pystr" where
  "guild_key gid = py_str_int gid"

definition save_config :: "world \<Rightarrow> world" where
  "save_config w = w\<lparr> disk := Some (cfg w), saves := Suc (saves w) \<rparr>"

text \<open>\<open>get_guild_config\<close> returns the dict stored under the key; a caller that assigns
  to it changes \<open>cfg\<close>, which the callers below write out as an update at the key.\<close>

definition get_guild_config :: "world \<Rightarrow> int \<Rightarrow> guild_config \<times> world" where
  "get_guild_config w gid =
     (let k = guild_key gid
      in (case cfg w k of
            None \<Rightarrow>
              (default_guild_config,
               save_config (w\<lparr> cfg := (cfg w)(k \<mapsto> default_guild_config) \<rparr>))
          | Some g \<Rightarrow> (g, w)))"

section \<open>Random draws\<close>

definition secrets_randbelow :: "platform \<Rightarrow> int \<Rightarrow> world \<Rightarrow> int \<times> world" where
  "secrets_randbelow P n w = (randbelow P (drawn w) n, w\<lparr> drawn := Suc (drawn w) \<rparr>)"

definition roll_d100 :: "platform \<Rightarrow> world \<Rightarrow> int \<times> world" where
  "roll_d100 P w = (case secrets_randbelow P 100 w of (r, w') \<Rightarrow> (roll_d100_at r, w'))"

definition weighted_choice :: "platform \<Rightarrow> outcome list \<Rightarrow> world \<Rightarrow> (exn + pystr) \<times> world" where
  "weighted_choice P outs w =
     (case secrets_randbelow P 100 w of (r, w') \<Rightarrow> (weighted_choice_at r outs, w'))"

section \<open>Slash commands\<close>

definition is_mod :: "interaction \<Rightarrow> bool" where
  "is_mod i =
     (case (i_guild i, i_user i) of
        (Some g, Some p) \<Rightarrow> manage_messages p \<or> administrator p
      | _ \<Rightarrow> False)"

definition respond :: "reply \<Rightarrow> world \<Rightarrow> world" where
  "respond r w = w\<lparr> trace := trace w @ [Reply r] \<rparr>"

text \<open>The pieces of \<open>odds\<close> (line 176): split at semicolons, blank pieces dropped, the
  others stripped.\<close>

definition odds_parts :: "pystr \<Rightarrow> pystr list" where
  "odds_parts odds = map py_strip (filter (\<lambda>p. py_strip p \<noteq> []) (py_split 59 odds))"

text \<open>The parsing loop (lines 177-185): it ends with the parsed list, with an early
  return that sends a reply, or with the exception \<open>int()\<close> raised.\<close>

datatype parse_result = Parsed "outcome list" | Rejected reply | Crashed exn

fun parse_parts :: "pystr list \<Rightarrow> outcome list \<Rightarrow> parse_result" where
  "parse_parts [] parsed = Parsed parsed"
| "parse_parts (p # ps) parsed =
     (if 61 \<notin> set p then Rejected BadFormat
      else (case py_split1 61 p of
              (n, ws) \<Rightarrow>
                if \<not> py_isdigit (py_strip ws) then Rejected (WeightNotInteger p)
                else (case py_int (py_strip ws) of
                        Inl e \<Rightarrow> Crashed e
                      | Inr v \<Rightarrow>
                          parse_parts ps (parsed @ [\<lparr> name = py_strip n, weight = v \<rparr>]))))"

definition setodds :: "interaction \<Rightarrow> pystr \<Rightarrow> world \<Rightarrow> exn option \<times> world" where
  "setodds i odds w =
     (case i_guild i of
        None \<Rightarrow> (None, respond UseInServer w)
      | Some g \<Rightarrow>
          if \<not> is_mod i then (None, respond NeedManageMessages w)
          else (case parse_parts (odds_parts odds) [] of
                  Rejected r \<Rightarrow> (None, respond r w)
                | Crashed e \<Rightarrow> (Some e, w)
                | Parsed parsed \<Rightarrow>
                    (case validate_outcomes (map outcome_dict parsed) of
                       (ok, msg) \<Rightarrow>
                         if \<not> ok then (None, respond (Invalid msg) w)
                         else (case get_guild_config w (g_id g) of
                                 (gconf, w1) \<Rightarrow>
                                   (None,
                                    respond (OddsUpdated parsed)
                                      (save_config
                                        (w1\<lparr> cfg := (cfg w1)(guild_key (g_id g) \<mapsto>
                                                 gconf\<lparr> outcomes := parsed \<rparr>) \<rparr>)))))))"

text \<open>\<open>ch.fetch_message(mid)\<close>: the platform may refuse; otherwise the message is found
  or \<open>NotFound\<close> is raised.\<close>

definition fetch_message :: "platform \<Rightarrow> world \<Rightarrow> int \<Rightarrow> int \<Rightarrow> http_error + message" where
  "fetch_message P w c mid =
     (case fetch_error P c mid of
        Some e \<Rightarrow> Inl e
      | None \<Rightarrow> (case msgs w (c, mid) of None \<Rightarrow> Inl NotFound | Some m \<Rightarrow> Inr m))"

definition edit_message ::
  "platform \<Rightarrow> int \<Rightarrow> int \<Rightarrow> message \<Rightarrow> pystr \<Rightarrow> world \<Rightarrow> exn option \<times> world" where
  "edit_message P c mid m new_text w =
     (let w' = w\<lparr> trace := trace w @ [EditMessage c mid new_text] \<rparr>
      in (case edit_error P c mid of
            Some e \<Rightarrow> (Some (Http e), w')
          | None \<Rightarrow>
              (None, respond Edited
                 (w'\<lparr> msgs := (msgs w')((c, mid) \<mapsto> m\<lparr> content := new_text \<rparr>) \<rparr>))))"

definition editrolllog ::
  "platform \<Rightarrow> interaction \<Rightarrow> pystr \<Rightarrow> pystr \<Rightarrow> world \<Rightarrow> exn option \<times> world" where
  "editrolllog P i message_id_str new_text w =
     (case i_guild i of
        None \<Rightarrow> (None, respond UseInServer w)
      | Some g \<Rightarrow>
          if \<not> is_mod i then (None, respond NeedManageMessages w)
          else (case get_guild_config w (g_id g) of
                  (gconf, w1) \<Rightarrow>
                    if \<not> truthy (mod_channel_id gconf) then (None, respond ModChannelNotSet w1)
                    else (case get_channel g (the (mod_channel_id gconf)) of
                            Some (TextChannel c) \<Rightarrow>
                              (case py_int message_id_str of
                                 Inl e \<Rightarrow> (None, respond MessageIdNotNumber w1)
                               | Inr mid \<Rightarrow>
                                   (let w2 = w1\<lparr> trace := trace w1 @ [FetchMessage c mid] \<rparr>
                                    in (case fetch_message P w2 c mid of
                                          Inl NotFound \<Rightarrow> (None, respond MessageNotFound w2)
                                        | Inl e \<Rightarrow> (Some (Http e), w2)
                                        | Inr m \<Rightarrow>
                                            if author_id m \<noteq> bot_user_id P
                                            then (None, respond NotOwnMessage w2)
                                            else edit_message P c mid m new_text w2)))
                          | _ \<Rightarrow> (None, respond ModChannelNotFound w1))))"

section \<open>Reaction trigger\<close>

definition resolve_guild :: "platform \<Rightarrow> reaction_event \<Rightarrow> guild option" where
  "resolve_guild P payload =
     (if truthy (guild_id payload) then get_guild P (the (guild_id payload)) else None)"

text \<open>Lines 307-308: the guild's member, or else the user fetched from the platform.\<close>

definition resolve_user ::
  "platform \<Rightarrow> reaction_event \<Rightarrow> guild \<Rightarrow> world \<Rightarrow> (http_error + user) \<times> world" where
  "resolve_user P payload g w =
     (case get_member g (user_id payload) of
        Some m \<Rightarrow> (Inr m, w)
      | None \<Rightarrow>
          (fetch_user P (user_id payload),
           w\<lparr> trace := trace w @ [FetchUser (user_id payload)] \<rparr>))"

text \<open>Lines 323-335: the log post; an error of \<open>mod_ch.send\<close> is not caught.\<close>

definition log_roll ::
  "platform \<Rightarrow> guild \<Rightarrow> guild_config \<Rightarrow> user \<Rightarrow> int \<Rightarrow> pystr \<Rightarrow> bool \<Rightarrow> world
     \<Rightarrow> exn option \<times> world" where
  "log_roll P g gconf usr d100 outcome dm_ok w =
     (if truthy (mod_channel_id gconf)
      then (case get_channel g (the (mod_channel_id gconf)) of
              Some (TextChannel c) \<Rightarrow>
                (let w' = w\<lparr> trace := trace w @
                            [LogPost c usr d100 outcome dm_ok
                               (trigger_message_id gconf) (trigger_channel_id gconf)] \<rparr>
                 in (case send_error P c of
                       None \<Rightarrow> (None, w')
                     | Some e \<Rightarrow> (Some (Http e), w')))
            | _ \<Rightarrow> (None, w))
      else (None, w))"

text \<open>Lines 337-343: the reaction is removed when the message can be fetched; every
  exception is suppressed.\<close>

definition remove_reaction :: "platform \<Rightarrow> reaction_event \<Rightarrow> guild \<Rightarrow> user \<Rightarrow> world \<Rightarrow> world" where
  "remove_reaction P payload g usr w =
     (case get_channel g (channel_id payload) of
        Some (TextChannel c) \<Rightarrow>
          (let w' = w\<lparr> trace := trace w @ [FetchMessage c (message_id payload)] \<rparr>
           in (case fetch_message P w' c (message_id payload) of
                 Inl e \<Rightarrow> w'
               | Inr m \<Rightarrow>
                   w'\<lparr> trace := trace w' @
                         [RemoveReaction c (message_id payload) (emoji payload) usr] \<rparr>))
      | _ \<Rightarrow> w)"

text \<open>Lines 307-343, run once every check of the handler has passed.\<close>

definition dispatch ::
  "platform \<Rightarrow> reaction_event \<Rightarrow> guild \<Rightarrow> guild_config \<Rightarrow> world \<Rightarrow> exn option \<times> world" where
  "dispatch P payload g gconf w =
     (case resolve_user P payload g w of
        (Inl e, w1) \<Rightarrow> (Some (Http e), w1)
      | (Inr usr, w1) \<Rightarrow>
          (case roll_d100 P w1 of
             (d100, w2) \<Rightarrow>
               (case weighted_choice P (outcomes gconf) w2 of
                  (Inl e, w3) \<Rightarrow> (Some e, w3)
                | (Inr outcome, w3) \<Rightarrow>
                    (let w4 = w3\<lparr> trace := trace w3 @
                                [SendDM usr d100 outcome (trigger_emoji gconf) (g_name g)] \<rparr>;
                         dm_ok = (dm_error P (u_id usr) = None)
                     in (case log_roll P g gconf usr d100 outcome dm_ok w4 of
                           (Some e, w5) \<Rightarrow> (Some e, w5)
                         | (None, w5) \<Rightarrow> (None, remove_reaction P payload g usr w5))))))"

definition on_raw_reaction_add ::
  "platform \<Rightarrow> reaction_event \<Rightarrow> world \<Rightarrow> exn option \<times> world" where
  "on_raw_reaction_add P payload w =
     (if user_id payload = bot_user_id P then (None, w)
      else (case resolve_guild P payload of
              None \<Rightarrow> (None, w)
            | Some g \<Rightarrow>
                (case get_guild_config w (g_id g) of
                   (gconf, w1) \<Rightarrow>
                     if \<not> truthy (trigger_message_id gconf) \<or> \<not> truthy (trigger_channel_id gconf)
                     then (None, w1)
                     else if Some (message_id payload) \<noteq> trigger_message_id gconf
                             \<or> Some (channel_id payload) \<noteq> trigger_channel_id gconf
                     then (None, w1)
                     else if emoji payload \<noteq> trigger_emoji gconf then (None, w1)
                     else dispatch P payload g gconf w1)))"

section \<open>Notions the properties are stated with\<close>

text \<open>The cumulative sum of the weights up to and including entry \<open>i\<close>, and the first
  index whose cumulative sum exceeds the sample.\<close>

definition cumulative_upto :: "outcome list \<Rightarrow> nat \<Rightarrow> int" where
  "cumulative_upto outs i = sum_list (map weight (take (Suc i) outs))"

definition first_hit :: "int \<Rightarrow> outcome list \<Rightarrow> nat option" where
  "first_hit r outs = find (\<lambda>i. r < cumulative_upto outs i) [0..<length outs]"

text \<open>Entry \<open>i\<close> owns the half-open interval from the cumulative sum before it to the
  cumulative sum after it.\<close>

definition owns :: "outcome list \<Rightarrow> nat \<Rightarrow> int \<Rightarrow> bool" where
  "owns outs i r =
     (sum_list (map weight (take i outs)) \<le> r \<and> r < sum_list (map weight (take (Suc i) outs)))"

text \<open>The same with the running sum started at \<open>c\<close>, as the loop sees the rest of
  the list.\<close>

definition owns_from :: "int \<Rightarrow> outcome list \<Rightarrow> nat \<Rightarrow> int \<Rightarrow> bool" where
  "owns_from c outs i r =
     (i < length outs \<and> c + sum_list (map weight (take i outs)) \<le> r
        \<and> r < c + sum_list (map weight (take (Suc i) outs)))"

definition abc_outcomes :: "outcome list" where
  "abc_outcomes =
     [\<lparr> name = ascii ''A'', weight = 25 \<rparr>,
      \<lparr> name = ascii ''B'', weight = 25 \<rparr>,
      \<lparr> name = ascii ''C'', weight = 50 \<rparr>]"

definition xy_outcomes :: "outcome list" where
  "xy_outcomes = [\<lparr> name = ascii ''x'', weight = 10 \<rparr>, \<lparr> name = ascii ''y'', weight = 20 \<rparr>]"

text \<open>A well-formed entry has a string name that is not whitespace only and a weight that
  is an integer (for Python, a \<open>bool\<close> is one) and not negative.\<close>

definition well_formed :: "entry \<Rightarrow> bool" where
  "well_formed e =
     (case (e (ascii ''name''), e (ascii ''weight'')) of
        (Some (PyStr n), Some w) \<Rightarrow>
          (\<exists>c \<in> set n. \<not> py_isspace c) \<and> isinstance_int w \<and> 0 \<le> int_value w
      | _ \<Rightarrow> False)"

definition entry_weight :: "entry \<Rightarrow> int" where
  "entry_weight e = (case e (ascii ''weight'') of Some w \<Rightarrow> int_value w | None \<Rightarrow> 0)"

definition total_weight :: "entry list \<Rightarrow> int" where
  "total_weight es = sum_list (map entry_weight es)"

section \<open>Example inputs\<close>

definition empty_world :: world where
  "empty_world =
     \<lparr> cfg = Map.empty, disk = None, saves = 0, drawn = 0, msgs = Map.empty, trace = [] \<rparr>"

definition guild7 :: guild where
  "guild7 =
     \<lparr> g_id = 7,
       g_name = ascii ''Guild'',
       get_channel = (\<lambda>c. if c = 600 then Some (TextChannel 600)
                          else if c = 900 then Some (TextChannel 900) else None),
       get_member = (\<lambda>u. if u = 55 then Some \<lparr> u_id = 55 \<rparr> else None) \<rparr>"

definition bot_platform :: platform where
  "bot_platform =
     \<lparr> bot_user_id = 1,
       get_guild = (\<lambda>i. if i = 7 then Some guild7 else None),
       randbelow = (\<lambda>k n. if k = 0 then 41 else 30),
       fetch_user = (\<lambda>u. Inl NotFound),
       dm_error = (\<lambda>u. None),
       send_error = (\<lambda>c. None),
       fetch_error = (\<lambda>c m. None),
       edit_error = (\<lambda>c m. None) \<rparr>"

definition roller_config :: guild_config where
  "roller_config =
     default_guild_config
       \<lparr> trigger_message_id := Some 500, trigger_channel_id := Some 600,
         mod_channel_id := Some 900 \<rparr>"

definition roller_world :: world where
  "roller_world =
     \<lparr> cfg = [guild_key 7 \<mapsto> roller_config],
       disk = Some [guild_key 7 \<mapsto> roller_config],
       saves = 3,
       drawn = 0,
       msgs = [(600, 500) \<mapsto> \<lparr> author_id = 1, content = ascii ''React to roll!'' \<rparr>,
               (900, 1000) \<mapsto> \<lparr> author_id = 1, content = ascii ''Roll Log'' \<rparr>,
               (900, 1001) \<mapsto> \<lparr> author_id = 55, content = ascii ''hello'' \<rparr>],
       trace = [] \<rparr>"

definition user_event :: reaction_event where
  "user_event =
     \<lparr> user_id = 55, guild_id = Some 7, channel_id = 600, message_id = 500,
       emoji = [127922] \<rparr>"

definition own_event :: reaction_event where
  "own_event = user_event \<lparr> user_id := 1 \<rparr>"

definition other_message_event :: reaction_event where
  "other_message_event = user_event \<lparr> message_id := 501 \<rparr>"

definition mod_interaction :: interaction where
  "mod_interaction =
     \<lparr> i_guild = Some guild7,
       i_user = Some \<lparr> manage_messages = True, administrator = False \<rparr> \<rparr>"

section \<open>The weighted draw\<close>

lemma find_map_opt: "find P (map f xs) = map_option f (find (\<lambda>x. P (f x)) xs)"
  by (induction xs) auto

lemma upt_0_Suc_shift: "[0..<Suc n] = 0 # map Suc [0..<n]"
  by (simp add: map_Suc_upt upt_conv_Cons del: upt_Suc)

lemma cumulative_upto_Cons: "cumulative_upto (x # xs) (Suc i) = weight x + cumulative_upto xs i"
  by (simp add: cumulative_upto_def)

lemma cumulative_upto_0: "cumulative_upto (x # xs) 0 = weight x"
  by (simp add: cumulative_upto_def)

text \<open>The loop returns at the first index whose cumulative sum exceeds the sample.\<close>

lemma choice_loop_first:
  "choice_loop r c outs =
     map_option (\<lambda>i. name (outs ! i))
       (find (\<lambda>i. r < c + cumulative_upto outs i) [0..<length outs])"
proof (induction outs arbitrary: c)
  case Nil
  then show ?case by simp
next
  case (Cons x xs)
  have shift: "[0..<length (x # xs)] = 0 # map Suc [0..<length xs]"
    using upt_0_Suc_shift [of "length xs"] by simp
  have step: "find (\<lambda>i. r < c + cumulative_upto (x # xs) i) (map Suc [0..<length xs])
      = map_option Suc (find (\<lambda>i. r < (c + weight x) + cumulative_upto xs i) [0..<length xs])"
    by (simp only: find_map_opt cumulative_upto_Cons add.assoc)
  show ?case
  proof (cases "r < c + weight x")
    case True
    then show ?thesis
      by (simp only: shift choice_loop.simps find.simps cumulative_upto_0 if_True
            option.map nth_Cons_0)
  next
    case False
    then show ?thesis
      by (simp only: shift choice_loop.simps find.simps cumulative_upto_0 if_False step
            Cons.IH option.map_comp comp_def nth_Cons_Suc)
  qed
qed

lemma choice_loop_first_hit:
  "choice_loop r 0 outs = map_option (\<lambda>i. name (outs ! i)) (first_hit r outs)"
  using choice_loop_first [of r 0 outs] by (simp add: first_hit_def)

lemma choice_loop_returns:
  "c \<le> r \<Longrightarrow> r < c + sum_list (map weight outs) \<Longrightarrow> choice_loop r c outs \<noteq> None"
  by (induction outs arbitrary: c) (auto simp: add.assoc)

lemma choice_loop_mem:
  "choice_loop r c outs = Some n \<Longrightarrow> n \<in> name ` set outs"
  by (induction outs arbitrary: c) (auto split: if_splits)

lemma take_weights_nonneg:
  "\<forall>x \<in> set outs. 0 \<le> weight x \<Longrightarrow> 0 \<le> sum_list (map weight (take j outs))"
  by (rule sum_list_nonneg) (auto dest: in_set_takeD)

lemma owns_from_0: "owns_from c (x # xs) 0 r = (c \<le> r \<and> r < c + weight x)"
  by (simp add: owns_from_def)

lemma owns_from_Suc: "owns_from c (x # xs) (Suc j) r = owns_from (c + weight x) xs j r"
  by (simp add: owns_from_def add.assoc)

lemma owns_from_lower:
  "\<forall>x \<in> set outs. 0 \<le> weight x \<Longrightarrow> owns_from c outs i r \<Longrightarrow> c \<le> r"
  using take_weights_nonneg [of outs i] by (simp add: owns_from_def)

text \<open>With weights that are not negative, exactly one entry owns a sample below the total,
  and the loop returns that entry's name.\<close>

lemma owns_partition:
  assumes "\<forall>x \<in> set outs. 0 \<le> weight x"
    and "c \<le> r" and "r < c + sum_list (map weight outs)"
  shows "\<exists>i. owns_from c outs i r \<and> choice_loop r c outs = Some (name (outs ! i))
            \<and> (\<forall>j. owns_from c outs j r \<longrightarrow> j = i)"
  using assms
proof (induction outs arbitrary: c)
  case Nil
  then show ?case by simp
next
  case (Cons x xs)
  show ?case
  proof (cases "r < c + weight x")
    case True
    have uniq: "\<forall>j. owns_from c (x # xs) j r \<longrightarrow> j = 0"
    proof (intro allI impI)
      fix j assume o: "owns_from c (x # xs) j r"
      show "j = 0"
      proof (cases j)
        case 0 then show ?thesis by simp
      next
        case (Suc k)
        with o have "owns_from (c + weight x) xs k r" by (simp only: owns_from_Suc)
        with Cons.prems(1) have "c + weight x \<le> r"
          using owns_from_lower [of xs "c + weight x" k r] by simp
        with True show ?thesis by simp
      qed
    qed
    from True Cons.prems(2) have o0: "owns_from c (x # xs) 0 r" by (simp only: owns_from_0)
    have l0: "choice_loop r c (x # xs) = Some (name ((x # xs) ! 0))"
      using True by simp
    from o0 l0 uniq show ?thesis by blast
  next
    case False
    from Cons.prems(1) have p1: "\<forall>y \<in> set xs. 0 \<le> weight y" by simp
    from False have p2: "c + weight x \<le> r" by simp
    from Cons.prems(3) have p3: "r < (c + weight x) + sum_list (map weight xs)" by simp
    from Cons.IH [OF p1 p2 p3] obtain i where
      i: "owns_from (c + weight x) xs i r"
         "choice_loop r (c + weight x) xs = Some (name (xs ! i))"
         "\<forall>j. owns_from (c + weight x) xs j r \<longrightarrow> j = i" by blast
    have uniq: "\<forall>j. owns_from c (x # xs) j r \<longrightarrow> j = Suc i"
    proof (intro allI impI)
      fix j assume o: "owns_from c (x # xs) j r"
      show "j = Suc i"
      proof (cases j)
        case 0 with o False show ?thesis by (simp add: owns_from_0)
      next
        case (Suc k)
        with o i(3) show ?thesis by (simp add: owns_from_Suc)
      qed
    qed
    from i(1) have oS: "owns_from c (x # xs) (Suc i) r" by (simp only: owns_from_Suc)
    have lS: "choice_loop r c (x # xs) = Some (name ((x # xs) ! Suc i))"
      using False i(2) by simp
    from oS lS uniq show ?thesis by blast
  qed
qed

lemma owns_from_zero: "owns_from 0 outs i r = (i < length outs \<and> owns outs i r)"
  by (simp add: owns_from_def owns_def)

lemma weighted_choice_at_loop:
  "choice_loop r 0 outs = Some n \<Longrightarrow> weighted_choice_at r outs = Inr n"
  by (simp add: weighted_choice_at_def)

lemma abc_A: "0 \<le> r \<Longrightarrow> r < 25 \<Longrightarrow> weighted_choice_at r abc_outcomes = Inr (ascii ''A'')"
  by (simp add: weighted_choice_at_def abc_outcomes_def)

lemma abc_B: "25 \<le> r \<Longrightarrow> r < 50 \<Longrightarrow> weighted_choice_at r abc_outcomes = Inr (ascii ''B'')"
  by (simp add: weighted_choice_at_def abc_outcomes_def)

lemma abc_C: "50 \<le> r \<Longrightarrow> r < 100 \<Longrightarrow> weighted_choice_at r abc_outcomes = Inr (ascii ''C'')"
  by (simp add: weighted_choice_at_def abc_outcomes_def)

lemma first_hit_exists:
  assumes "0 \<le> r" and "r < sum_list (map weight outs)"
  shows "\<exists>i. first_hit r outs = Some i \<and> weighted_choice_at r outs = Inr (name (outs ! i))"
proof -
  from assms have "choice_loop r 0 outs \<noteq> None"
    using choice_loop_returns [of 0 r outs] by simp
  then obtain n where n: "choice_loop r 0 outs = Some n" by blast
  with choice_loop_first_hit [of r outs] obtain i where
    "first_hit r outs = Some i" "n = name (outs ! i)" by (cases "first_hit r outs") auto
  with n show ?thesis by (simp add: weighted_choice_at_loop)
qed

lemma owner_unique:
  assumes nn: "\<forall>x \<in> set outs. 0 \<le> weight x"
    and lo: "0 \<le> r" and hi: "r < sum_list (map weight outs)"
  shows "(\<exists>!i. i < length outs \<and> owns outs i r)
       \<and> (\<forall>i. i < length outs \<and> owns outs i r \<longrightarrow>
             weighted_choice_at r outs = Inr (name (outs ! i)))"
proof -
  from hi have hi0: "r < 0 + sum_list (map weight outs)" by simp
  from owns_partition [OF nn lo hi0] obtain i where
    i1: "owns_from 0 outs i r" and i2: "choice_loop r 0 outs = Some (name (outs ! i))"
    and i3: "\<forall>j. owns_from 0 outs j r \<longrightarrow> j = i" by (elim exE conjE)
  from i2 have w: "weighted_choice_at r outs = Inr (name (outs ! i))"
    by (rule weighted_choice_at_loop)
  from i1 have o: "i < length outs \<and> owns outs i r" by (simp only: owns_from_zero)
  have u: "j = i" if "j < length outs \<and> owns outs j r" for j
  proof -
    from that have "owns_from 0 outs j r" by (simp only: owns_from_zero)
    with i3 show ?thesis by (elim allE [of _ j]) (rule mp)
  qed
  have one: "\<exists>!i. i < length outs \<and> owns outs i r"
    by (rule ex1I [of _ i]) (fact o, rule u)
  have ret: "\<forall>j. j < length outs \<and> owns outs j r \<longrightarrow>
      weighted_choice_at r outs = Inr (name (outs ! j))"
  proof (intro allI impI)
    fix j assume "j < length outs \<and> owns outs j r"
    then have "j = i" by (rule u)
    with w show "weighted_choice_at r outs = Inr (name (outs ! j))" by (simp only:)
  qed
  from one ret show ?thesis by (rule conjI)
qed

text \<open>
  C1. Given the sample \<open>r\<close>, the weighted draw returns the name of the first entry whose
  running cumulative sum of weights exceeds \<open>r\<close> (and takes the fallback when there is
  none). For the outcomes A 25, B 25, C 50 it returns A on \<open>[0,25)\<close>, B on \<open>[25,50)\<close> and
  C on \<open>[50,100)\<close>. When the weights sum to 100 every sample in \<open>[0,100)\<close> is mapped
  inside the loop (no gap), and with weights that are not negative exactly one entry owns
  the sample (no overlap), which is the one returned.
\<close>

theorem weighted_choice_first_cumulative:
  "weighted_choice_at r outs =
     (case first_hit r outs of
        Some i \<Rightarrow> Inr (name (outs ! i))
      | None \<Rightarrow> if outs = [] then Inl IndexError else Inr (name (last outs)))
   \<and> (0 \<le> r \<and> r < 25 \<longrightarrow> weighted_choice_at r abc_outcomes = Inr (ascii ''A''))
   \<and> (25 \<le> r \<and> r < 50 \<longrightarrow> weighted_choice_at r abc_outcomes = Inr (ascii ''B''))
   \<and> (50 \<le> r \<and> r < 100 \<longrightarrow> weighted_choice_at r abc_outcomes = Inr (ascii ''C''))
   \<and> (0 \<le> r \<and> r < 100 \<and> sum_list (map weight outs) = 100 \<longrightarrow>
        (\<exists>i. first_hit r outs = Some i \<and> weighted_choice_at r outs = Inr (name (outs ! i))))
   \<and> (0 \<le> r \<and> r < 100 \<and> sum_list (map weight outs) = 100
        \<and> (\<forall>x \<in> set outs. 0 \<le> weight x) \<longrightarrow>
        (\<exists>!i. i < length outs \<and> owns outs i r)
        \<and> (\<forall>i. i < length outs \<and> owns outs i r \<longrightarrow>
              weighted_choice_at r outs = Inr (name (outs ! i))))"
proof -
  have a: "weighted_choice_at r outs =
     (case first_hit r outs of
        Some i \<Rightarrow> Inr (name (outs ! i))
      | None \<Rightarrow> if outs = [] then Inl IndexError else Inr (name (last outs)))"
    by (simp add: weighted_choice_at_def choice_loop_first_hit split: option.splits)
  have e: "0 \<le> r \<and> r < 100 \<and> sum_list (map weight outs) = 100 \<longrightarrow>
        (\<exists>i. first_hit r outs = Some i \<and> weighted_choice_at r outs = Inr (name (outs ! i)))"
    using first_hit_exists [of r outs] by simp
  have f: "0 \<le> r \<and> r < 100 \<and> sum_list (map weight outs) = 100
        \<and> (\<forall>x \<in> set outs. 0 \<le> weight x) \<longrightarrow>
        (\<exists>!i. i < length outs \<and> owns outs i r)
        \<and> (\<forall>i. i < length outs \<and> owns outs i r \<longrightarrow>
              weighted_choice_at r outs = Inr (name (outs ! i)))"
    using owner_unique [of outs r] by simp
  from a e f abc_A [of r] abc_B [of r] abc_C [of r] show ?thesis by blast
qed

theorem weighted_choice_first_cumulative_witness:
  "weighted_choice_at 30 abc_outcomes = Inr (ascii ''B'')
   \<and> first_hit 30 abc_outcomes = Some 1
   \<and> sum_list (map weight abc_outcomes) = 100
   \<and> list_all (\<lambda>x. 0 \<le> weight x) abc_outcomes
   \<and> (\<exists>!i. i < length abc_outcomes \<and> owns abc_outcomes i 30)
   \<and> owns abc_outcomes 1 30"
proof -
  have s: "sum_list (map weight abc_outcomes) = 100" by (simp add: abc_outcomes_def)
  have n: "\<forall>x \<in> set abc_outcomes. 0 \<le> weight x" by (simp add: abc_outcomes_def)
  have h: "first_hit 30 abc_outcomes = Some 1"
    by (simp add: first_hit_def abc_outcomes_def cumulative_upto_def upt_rec)
  have o: "owns abc_outcomes 1 30" by (simp add: owns_def abc_outcomes_def)
  from s n h o weighted_choice_first_cumulative [of 30 abc_outcomes]
  show ?thesis by (simp add: list_all_iff abc_outcomes_def)
qed

text \<open>
  C9. On a non-empty list the weighted draw returns the name of an entry of the list,
  whatever the weights sum to; on the empty list it raises \<open>IndexError\<close>.
\<close>

theorem weighted_choice_total:
  "(outs \<noteq> [] \<longrightarrow> (\<exists>x \<in> set outs. weighted_choice_at r outs = Inr (name x)))
   \<and> weighted_choice_at r [] = Inl IndexError"
proof -
  have "\<exists>x \<in> set outs. weighted_choice_at r outs = Inr (name x)" if ne: "outs \<noteq> []"
  proof (cases "choice_loop r 0 outs")
    case None
    from ne have "last outs \<in> set outs" by (rule last_in_set)
    moreover from None ne have "weighted_choice_at r outs = Inr (name (last outs))"
      by (simp add: weighted_choice_at_def)
    ultimately show ?thesis by blast
  next
    case (Some n)
    then have "n \<in> name ` set outs" by (rule choice_loop_mem)
    then obtain x where "x \<in> set outs" "n = name x" by blast
    moreover from Some have "weighted_choice_at r outs = Inr n"
      by (simp add: weighted_choice_at_def)
    ultimately show ?thesis by blast
  qed
  moreover have "weighted_choice_at r [] = Inl IndexError"
    by (simp add: weighted_choice_at_def)
  ultimately show ?thesis by blast
qed

theorem weighted_choice_total_witness:
  "xy_outcomes \<noteq> []
   \<and> weighted_choice_at 99 xy_outcomes = Inr (ascii ''y'')
   \<and> (\<exists>x \<in> set xy_outcomes. weighted_choice_at 99 xy_outcomes = Inr (name x))"
proof -
  have ne: "xy_outcomes \<noteq> []" by (simp add: xy_outcomes_def)
  have v: "weighted_choice_at 99 xy_outcomes = Inr (ascii ''y'')"
    by (simp add: weighted_choice_at_def xy_outcomes_def)
  from ne v weighted_choice_total [of xy_outcomes 99] show ?thesis by simp
qed


section \<open>Validation\<close>

lemma all_dropWhile_iff: "(\<forall>c \<in> set (dropWhile P s). P c) \<longleftrightarrow> (\<forall>c \<in> set s. P c)"
proof
  assume a: "\<forall>c \<in> set (dropWhile P s). P c"
  have "dropWhile P s = []"
  proof (rule ccontr)
    assume n: "dropWhile P s \<noteq> []"
    then have "\<not> P (hd (dropWhile P s))" by (rule hd_dropWhile)
    moreover from n have "hd (dropWhile P s) \<in> set (dropWhile P s)" by simp
    ultimately show False using a by blast
  qed
  then show "\<forall>c \<in> set s. P c" by simp
next
  assume "\<forall>c \<in> set s. P c"
  then show "\<forall>c \<in> set (dropWhile P s). P c" by (blast dest: set_dropWhileD)
qed

text \<open>A name strips to the empty string exactly when it is empty or whitespace only.\<close>

lemma py_strip_empty_iff: "py_strip s = [] \<longleftrightarrow> (\<forall>c \<in> set s. py_isspace c)"
  by (simp add: py_strip_def all_dropWhile_iff)

lemma validate_step_wf:
  "well_formed e \<Longrightarrow> validate_loop t (e # es) = validate_loop (t + entry_weight e) es"
  by (auto simp: well_formed_def entry_weight_def py_strip_empty_iff
      split: option.splits pyval.splits)

lemma validate_step_bad:
  "\<not> well_formed e \<Longrightarrow> validate_loop t (e # es) \<in> {Inl msg_keys, Inl msg_name, Inl msg_weight}"
  by (auto simp: well_formed_def py_strip_empty_iff split: option.splits pyval.splits)

lemma validate_loop_ok:
  "\<forall>e \<in> set es. well_formed e \<Longrightarrow> validate_loop t es = Inr (t + total_weight es)"
proof (induction es arbitrary: t)
  case Nil
  then show ?case by (simp add: total_weight_def)
next
  case (Cons e es)
  then have "validate_loop t (e # es) = validate_loop (t + entry_weight e) es"
    by (simp only: validate_step_wf list.set_intros)
  with Cons show ?case by (simp add: total_weight_def)
qed

lemma validate_loop_bad:
  "\<exists>e \<in> set es. \<not> well_formed e \<Longrightarrow>
     validate_loop t es \<in> {Inl msg_keys, Inl msg_name, Inl msg_weight}"
proof (induction es arbitrary: t)
  case Nil
  then show ?case by simp
next
  case (Cons e es)
  show ?case
  proof (cases "well_formed e")
    case True
    with Cons.prems have "\<exists>e \<in> set es. \<not> well_formed e" by auto
    from Cons.IH [OF this] True show ?thesis by (simp only: validate_step_wf)
  next
    case False
    then show ?thesis by (rule validate_step_bad)
  qed
qed

lemma msgs_nonempty:
  "msg_empty \<noteq> []" "msg_keys \<noteq> []" "msg_name \<noteq> []" "msg_weight \<noteq> []" "msg_total t \<noteq> []"
  by (simp_all add: msg_empty_def msg_keys_def msg_name_def msg_weight_def msg_total_def ascii_def)

lemma validate_empty: "validate_outcomes [] = (False, msg_empty)"
  by (simp add: validate_outcomes_def)

lemma validate_all_wf:
  assumes "es \<noteq> []" and "\<forall>e \<in> set es. well_formed e"
  shows "validate_outcomes es =
           (if total_weight es \<noteq> 100 then (False, msg_total (total_weight es))
            else (True, ascii ''OK''))"
  using assms(1) validate_loop_ok [OF assms(2), of 0] by (simp add: validate_outcomes_def)

lemma validate_some_bad:
  assumes "\<exists>e \<in> set es. \<not> well_formed e"
  shows "\<not> fst (validate_outcomes es) \<and> snd (validate_outcomes es) \<in> {msg_keys, msg_name, msg_weight}"
proof -
  from assms have ne: "es \<noteq> []" by auto
  from validate_loop_bad [OF assms, of 0] ne show ?thesis
    by (auto simp: validate_outcomes_def)
qed

lemma validate_accept_iff:
  "fst (validate_outcomes es) \<longleftrightarrow>
     es \<noteq> [] \<and> (\<forall>e \<in> set es. well_formed e) \<and> total_weight es = 100"
proof (cases "es = []")
  case True
  then show ?thesis by (simp add: validate_empty)
next
  case ne: False
  show ?thesis
  proof (cases "\<forall>e \<in> set es. well_formed e")
    case True
    with ne validate_all_wf [of es] show ?thesis by simp
  next
    case False
    then have "\<exists>e \<in> set es. \<not> well_formed e" by simp
    from validate_some_bad [OF this] False show ?thesis by simp
  qed
qed

lemma validate_reason_nonempty: "\<not> fst (validate_outcomes es) \<Longrightarrow> snd (validate_outcomes es) \<noteq> []"
proof (cases "es = []")
  case True
  then show ?thesis by (simp add: validate_empty msgs_nonempty)
next
  case ne: False
  assume rej: "\<not> fst (validate_outcomes es)"
  show ?thesis
  proof (cases "\<forall>e \<in> set es. well_formed e")
    case True
    with ne rej validate_all_wf [of es] show ?thesis
      by (simp add: msgs_nonempty split: if_splits)
  next
    case False
    then have "\<exists>e \<in> set es. \<not> well_formed e" by simp
    from validate_some_bad [OF this] show ?thesis by (auto simp: msgs_nonempty)
  qed
qed

lemma key_name_neq_weight: "ascii ''name'' \<noteq> ascii ''weight''"
  by (simp add: ascii_def)

lemma well_formed_outcome_dict:
  "well_formed (outcome_dict x) \<longleftrightarrow> (\<exists>c \<in> set (name x). \<not> py_isspace c) \<and> 0 \<le> weight x"
  using key_name_neq_weight by (simp add: well_formed_def outcome_dict_def)

lemma entry_weight_outcome_dict: "entry_weight (outcome_dict x) = weight x"
  by (simp add: entry_weight_def outcome_dict_def)

lemma total_weight_outcome_dicts: "total_weight (map outcome_dict outs) = sum_list (map weight outs)"
  by (simp add: total_weight_def comp_def entry_weight_outcome_dict)

text \<open>
  C2. \<open>validate_outcomes\<close> rejects the empty list; rejects a list of well-formed entries
  whose weights do not total 100 and reports the actual total; rejects any list holding an
  entry that is not well-formed (a missing name or weight, a name that is not a string or
  is empty or whitespace only, a weight that is not an integer or is negative), with one of
  the three messages for malformed entries; and accepts every non-empty list of
  well-formed entries that totals 100, however long. Every rejection carries a non-empty
  message, and acceptance is all or nothing.
\<close>

theorem validate_outcomes_spec:
  "validate_outcomes [] = (False, msg_empty)
   \<and> (es \<noteq> [] \<and> (\<forall>e \<in> set es. well_formed e) \<and> total_weight es \<noteq> 100 \<longrightarrow>
        validate_outcomes es = (False, msg_total (total_weight es)))
   \<and> ((\<exists>e \<in> set es. \<not> well_formed e) \<longrightarrow>
        \<not> fst (validate_outcomes es)
        \<and> snd (validate_outcomes es) \<in> {msg_keys, msg_name, msg_weight})
   \<and> (es \<noteq> [] \<and> (\<forall>e \<in> set es. well_formed e) \<and> total_weight es = 100 \<longrightarrow>
        validate_outcomes es = (True, ascii ''OK''))
   \<and> (\<not> fst (validate_outcomes es) \<longrightarrow> snd (validate_outcomes es) \<noteq> [])
   \<and> (fst (validate_outcomes es) \<longleftrightarrow>
        es \<noteq> [] \<and> (\<forall>e \<in> set es. well_formed e) \<and> total_weight es = 100)"
proof -
  have b: "es \<noteq> [] \<and> (\<forall>e \<in> set es. well_formed e) \<and> total_weight es \<noteq> 100 \<longrightarrow>
        validate_outcomes es = (False, msg_total (total_weight es))"
    using validate_all_wf [of es] by simp
  have c: "(\<exists>e \<in> set es. \<not> well_formed e) \<longrightarrow>
        \<not> fst (validate_outcomes es)
        \<and> snd (validate_outcomes es) \<in> {msg_keys, msg_name, msg_weight}"
    using validate_some_bad [of es] by (rule impI)
  have d: "es \<noteq> [] \<and> (\<forall>e \<in> set es. well_formed e) \<and> total_weight es = 100 \<longrightarrow>
        validate_outcomes es = (True, ascii ''OK'')"
    using validate_all_wf [of es] by simp
  have e: "\<not> fst (validate_outcomes es) \<longrightarrow> snd (validate_outcomes es) \<noteq> []"
    using validate_reason_nonempty [of es] by (rule impI)
  from validate_empty b c d e validate_accept_iff [of es] show ?thesis
    by (intro conjI)
qed


lemma py_isspace_examples: "\<not> py_isspace 97" "\<not> py_isspace 98" "py_isspace 32"
  by (simp_all add: py_isspace_def in_ranges_def space_ranges_def)

lemma ascii_examples:
  "ascii ''a'' = [97]" "ascii ''b'' = [98]" "ascii '' '' = [32]"
  by (simp_all add: ascii_def)

theorem validate_outcomes_spec_witness:
  "validate_outcomes (map outcome_dict abc_outcomes) = (True, ascii ''OK'')
   \<and> validate_outcomes [outcome_dict \<lparr> name = ascii ''a'', weight = 99 \<rparr>]
       = (False, ascii ''Outcome weights must total 100 (currently 99).'')
   \<and> validate_outcomes [outcome_dict \<lparr> name = ascii ''a'', weight = 101 \<rparr>]
       = (False, ascii ''Outcome weights must total 100 (currently 101).'')
   \<and> \<not> fst (validate_outcomes [outcome_dict \<lparr> name = ascii ''a'', weight = - 1 \<rparr>,
                                outcome_dict \<lparr> name = ascii ''b'', weight = 101 \<rparr>])
   \<and> \<not> fst (validate_outcomes
               [[ascii ''name'' \<mapsto> PyStr (ascii ''a''), ascii ''weight'' \<mapsto> PyFloat 25 2]])
   \<and> \<not> fst (validate_outcomes [[ascii ''weight'' \<mapsto> PyInt 100]])
   \<and> \<not> fst (validate_outcomes [outcome_dict \<lparr> name = ascii '' '', weight = 100 \<rparr>])"
proof -
  have ok: "validate_outcomes (map outcome_dict abc_outcomes) = (True, ascii ''OK'')"
  proof -
    have "\<forall>e \<in> set (map outcome_dict abc_outcomes). well_formed e"
      by (simp add: abc_outcomes_def well_formed_outcome_dict ascii_def py_isspace_def
            in_ranges_def space_ranges_def)
    moreover have "total_weight (map outcome_dict abc_outcomes) = 100"
      unfolding total_weight_outcome_dicts by (simp add: abc_outcomes_def)
    moreover have "map outcome_dict abc_outcomes \<noteq> []" by (simp add: abc_outcomes_def)
    ultimately show ?thesis
      using validate_outcomes_spec [of "map outcome_dict abc_outcomes"] by blast
  qed
  have t99: "validate_outcomes [outcome_dict \<lparr> name = ascii ''a'', weight = 99 \<rparr>]
       = (False, ascii ''Outcome weights must total 100 (currently 99).'')"
  proof -
    have "\<forall>e \<in> set [outcome_dict \<lparr> name = ascii ''a'', weight = 99 \<rparr>]. well_formed e"
      by (simp add: well_formed_outcome_dict ascii_examples py_isspace_examples)
    moreover have "total_weight [outcome_dict \<lparr> name = ascii ''a'', weight = 99 \<rparr>] = 99"
      by (simp add: total_weight_def entry_weight_outcome_dict)
    moreover have "msg_total 99 = ascii ''Outcome weights must total 100 (currently 99).''"
      by (simp add: msg_total_def py_str_int_def nat_str.simps ascii_def)
    ultimately show ?thesis
      using validate_outcomes_spec [of "[outcome_dict \<lparr> name = ascii ''a'', weight = 99 \<rparr>]"]
      by simp
  qed
  have t101: "validate_outcomes [outcome_dict \<lparr> name = ascii ''a'', weight = 101 \<rparr>]
       = (False, ascii ''Outcome weights must total 100 (currently 101).'')"
  proof -
    have "\<forall>e \<in> set [outcome_dict \<lparr> name = ascii ''a'', weight = 101 \<rparr>]. well_formed e"
      by (simp add: well_formed_outcome_dict ascii_examples py_isspace_examples)
    moreover have "total_weight [outcome_dict \<lparr> name = ascii ''a'', weight = 101 \<rparr>] = 101"
      by (simp add: total_weight_def entry_weight_outcome_dict)
    moreover have "msg_total 101 = ascii ''Outcome weights must total 100 (currently 101).''"
      by (simp add: msg_total_def py_str_int_def nat_str.simps ascii_def)
    ultimately show ?thesis
      using validate_outcomes_spec [of "[outcome_dict \<lparr> name = ascii ''a'', weight = 101 \<rparr>]"]
      by simp
  qed
  have neg: "\<not> fst (validate_outcomes [outcome_dict \<lparr> name = ascii ''a'', weight = - 1 \<rparr>,
                                outcome_dict \<lparr> name = ascii ''b'', weight = 101 \<rparr>])"
  proof -
    have "\<exists>e \<in> set [outcome_dict \<lparr> name = ascii ''a'', weight = - 1 \<rparr>,
                    outcome_dict \<lparr> name = ascii ''b'', weight = 101 \<rparr>]. \<not> well_formed e"
      by (simp add: well_formed_outcome_dict)
    then show ?thesis
      using validate_outcomes_spec [of "[outcome_dict \<lparr> name = ascii ''a'', weight = - 1 \<rparr>,
                    outcome_dict \<lparr> name = ascii ''b'', weight = 101 \<rparr>]"] by blast
  qed
  have flt: "\<not> fst (validate_outcomes
               [[ascii ''name'' \<mapsto> PyStr (ascii ''a''), ascii ''weight'' \<mapsto> PyFloat 25 2]])"
  proof -
    have "\<exists>e \<in> set [[ascii ''name'' \<mapsto> PyStr (ascii ''a''), ascii ''weight'' \<mapsto> PyFloat 25 2]].
            \<not> well_formed e"
      using key_name_neq_weight by (simp add: well_formed_def)
    then show ?thesis
      using validate_outcomes_spec
        [of "[[ascii ''name'' \<mapsto> PyStr (ascii ''a''), ascii ''weight'' \<mapsto> PyFloat 25 2]]"]
      by blast
  qed
  have nokey: "\<not> fst (validate_outcomes [[ascii ''weight'' \<mapsto> PyInt 100]])"
  proof -
    have "\<exists>e \<in> set [[ascii ''weight'' \<mapsto> PyInt 100]]. \<not> well_formed e"
      using key_name_neq_weight by (simp add: well_formed_def)
    then show ?thesis
      using validate_outcomes_spec [of "[[ascii ''weight'' \<mapsto> PyInt 100]]"] by blast
  qed
  have blank: "\<not> fst (validate_outcomes [outcome_dict \<lparr> name = ascii '' '', weight = 100 \<rparr>])"
  proof -
    have "\<exists>e \<in> set [outcome_dict \<lparr> name = ascii '' '', weight = 100 \<rparr>]. \<not> well_formed e"
      by (simp add: well_formed_outcome_dict ascii_examples py_isspace_examples)
    then show ?thesis
      using validate_outcomes_spec [of "[outcome_dict \<lparr> name = ascii '' '', weight = 100 \<rparr>]"]
      by blast
  qed
  from ok t99 t101 neg flt nokey blank show ?thesis by (intro conjI)
qed

text \<open>
  C3. For outcomes that \<open>validate_outcomes\<close> accepts and a sample in \<open>[0,100)\<close>, the
  cumulative-sum loop returns inside the loop, so the fallback after the loop is not
  reached.
\<close>

theorem validated_draw_returns_in_loop:
  assumes "fst (validate_outcomes (map outcome_dict outs))" and "0 \<le> r" and "r < 100"
  shows "\<exists>n. choice_loop r 0 outs = Some n \<and> weighted_choice_at r outs = Inr n"
proof -
  from assms(1) have "total_weight (map outcome_dict outs) = 100"
    by (simp add: validate_accept_iff)
  then have "sum_list (map weight outs) = 100" by (simp add: total_weight_outcome_dicts)
  with assms(2,3) have "choice_loop r 0 outs \<noteq> None"
    using choice_loop_returns [of 0 r outs] by simp
  then obtain n where "choice_loop r 0 outs = Some n" by blast
  then show ?thesis by (simp add: weighted_choice_at_loop)
qed

theorem validated_draw_returns_in_loop_witness:
  "fst (validate_outcomes (map outcome_dict abc_outcomes))
   \<and> (\<exists>n. choice_loop 99 0 abc_outcomes = Some n \<and> weighted_choice_at 99 abc_outcomes = Inr n)
   \<and> choice_loop 99 0 abc_outcomes = Some (ascii ''C'')"
proof -
  have "\<forall>e \<in> set (map outcome_dict abc_outcomes). well_formed e"
    by (simp add: abc_outcomes_def well_formed_outcome_dict ascii_def py_isspace_def
          in_ranges_def space_ranges_def)
  moreover have "total_weight (map outcome_dict abc_outcomes) = 100"
    unfolding total_weight_outcome_dicts by (simp add: abc_outcomes_def)
  moreover have "map outcome_dict abc_outcomes \<noteq> []" by (simp add: abc_outcomes_def)
  ultimately have v: "fst (validate_outcomes (map outcome_dict abc_outcomes))"
    by (simp add: validate_accept_iff)
  have c: "choice_loop 99 0 abc_outcomes = Some (ascii ''C'')"
    by (simp add: abc_outcomes_def)
  from v c validated_draw_returns_in_loop [OF v, of 99] show ?thesis by simp
qed


section \<open>Config store\<close>

text \<open>Distinct guild ids have distinct keys: \<open>str\<close> is injective on integers.\<close>

lemma nat_str_digits: "\<forall>c \<in> set (nat_str n). 48 \<le> c \<and> c \<le> 57"
proof (induction n rule: nat_str.induct)
  case (1 n)
  show ?case
  proof (cases "n < 10")
    case True
    then show ?thesis by (simp add: nat_str.simps [of n])
  next
    case False
    with 1 show ?thesis by (simp add: nat_str.simps [of n])
  qed
qed

lemma nat_str_nonempty: "nat_str n \<noteq> []"
  by (simp add: nat_str.simps [of n])

lemma nat_str_inj: "nat_str n = nat_str m \<Longrightarrow> n = m"
proof (induction n arbitrary: m rule: nat_str.induct)
  case (1 n)
  show ?case
  proof (cases "n < 10")
    case n: True
    show ?thesis
    proof (cases "m < 10")
      case True
      with n 1(2) show ?thesis by (simp add: nat_str.simps [of n] nat_str.simps [of m])
    next
      case False
      with n 1(2) nat_str_nonempty [of "m div 10"] show ?thesis
        by (simp add: nat_str.simps [of n] nat_str.simps [of m])
    qed
  next
    case n: False
    show ?thesis
    proof (cases "m < 10")
      case True
      with n 1(2) nat_str_nonempty [of "n div 10"] show ?thesis
        by (simp add: nat_str.simps [of n] nat_str.simps [of m])
    next
      case False
      with n 1(2) have e: "nat_str (n div 10) = nat_str (m div 10)" "n mod 10 = m mod 10"
        by (simp_all add: nat_str.simps [of n] nat_str.simps [of m])
      from 1(1) [OF n e(1)] have "n div 10 = m div 10" .
      with e(2) show ?thesis by (metis div_mult_mod_eq)
    qed
  qed
qed

lemma guild_key_inj: "guild_key a = guild_key b \<Longrightarrow> a = b"
proof -
  assume e: "guild_key a = guild_key b"
  have no45: "45 \<notin> set (nat_str n)" for n using nat_str_digits [of n] by auto
  have hd_ne: "hd (nat_str n) \<noteq> 45" for n
    using no45 [of n] nat_str_nonempty [of n] by (cases "nat_str n") auto
  show ?thesis
  proof (cases "a < 0")
    case a: True
    show ?thesis
    proof (cases "b < 0")
      case True
      with a e have "nat_str (nat (- a)) = nat_str (nat (- b))"
        by (simp add: guild_key_def py_str_int_def)
      then have "nat (- a) = nat (- b)" by (rule nat_str_inj)
      with a True show ?thesis by simp
    next
      case False
      with a e have "45 # nat_str (nat (- a)) = nat_str (nat b)"
        by (simp add: guild_key_def py_str_int_def)
      then have "hd (nat_str (nat b)) = 45" by (metis list.sel(1))
      with hd_ne show ?thesis by blast
    qed
  next
    case a: False
    show ?thesis
    proof (cases "b < 0")
      case True
      with a e have "nat_str (nat a) = 45 # nat_str (nat (- b))"
        by (simp add: guild_key_def py_str_int_def)
      then have "hd (nat_str (nat a)) = 45" by simp
      with hd_ne show ?thesis by blast
    next
      case False
      with a e have "nat_str (nat a) = nat_str (nat b)"
        by (simp add: guild_key_def py_str_int_def)
      then have "nat a = nat b" by (rule nat_str_inj)
      with a False show ?thesis by simp
    qed
  qed
qed

lemma guild_key_7: "guild_key 7 = [55]"
  by (simp add: guild_key_def py_str_int_def nat_str.simps)

lemma get_guild_config_absent:
  "cfg w (guild_key gid) = None \<Longrightarrow>
     get_guild_config w gid =
       (default_guild_config,
        w\<lparr> cfg := (cfg w)(guild_key gid \<mapsto> default_guild_config),
           disk := Some ((cfg w)(guild_key gid \<mapsto> default_guild_config)),
           saves := Suc (saves w) \<rparr>)"
  by (simp add: get_guild_config_def save_config_def Let_def)

lemma get_guild_config_present:
  "cfg w (guild_key gid) = Some gc \<Longrightarrow> get_guild_config w gid = (gc, w)"
  by (simp add: get_guild_config_def Let_def)

text \<open>
  C4. For a guild id with no record, two calls of \<open>get_guild_config\<close> in sequence return
  the same default record (emoji U+1F3B2, no channel bindings, the three preset outcomes
  totalling 100); the first call inserts the record and saves once, the second changes
  nothing and does not save.
\<close>

theorem get_guild_config_twice:
  assumes "cfg w (guild_key gid) = None"
  shows "fst (get_guild_config w gid) = default_guild_config
     \<and> fst (get_guild_config (snd (get_guild_config w gid)) gid) = fst (get_guild_config w gid)
     \<and> cfg (snd (get_guild_config w gid)) = (cfg w)(guild_key gid \<mapsto> default_guild_config)
     \<and> disk (snd (get_guild_config w gid)) = Some (cfg (snd (get_guild_config w gid)))
     \<and> saves (snd (get_guild_config w gid)) = Suc (saves w)
     \<and> snd (get_guild_config (snd (get_guild_config w gid)) gid) = snd (get_guild_config w gid)
     \<and> saves (snd (get_guild_config (snd (get_guild_config w gid)) gid)) = Suc (saves w)
     \<and> trigger_emoji default_guild_config = [127922]
     \<and> trigger_message_id default_guild_config = None
     \<and> trigger_channel_id default_guild_config = None
     \<and> mod_channel_id default_guild_config = None
     \<and> outcomes default_guild_config =
           [\<lparr> name = ascii ''powers, curse'', weight = 25 \<rparr>,
            \<lparr> name = ascii ''powers, blessing'', weight = 25 \<rparr>,
            \<lparr> name = ascii ''no powers'', weight = 50 \<rparr>]
     \<and> sum_list (map weight (outcomes default_guild_config)) = 100"
proof -
  let ?w1 = "snd (get_guild_config w gid)"
  from assms have first: "get_guild_config w gid =
       (default_guild_config,
        w\<lparr> cfg := (cfg w)(guild_key gid \<mapsto> default_guild_config),
           disk := Some ((cfg w)(guild_key gid \<mapsto> default_guild_config)),
           saves := Suc (saves w) \<rparr>)"
    by (rule get_guild_config_absent)
  then have hit: "cfg ?w1 (guild_key gid) = Some default_guild_config" by simp
  have second: "get_guild_config ?w1 gid = (default_guild_config, ?w1)"
    using hit by (rule get_guild_config_present)
  have d: "sum_list (map weight (outcomes default_guild_config)) = 100"
    by (simp add: default_guild_config_def)
  from first second d show ?thesis by (simp add: default_guild_config_def)
qed

theorem get_guild_config_twice_witness:
  "cfg empty_world (guild_key 42) = None
   \<and> fst (get_guild_config empty_world 42) = default_guild_config
   \<and> fst (get_guild_config (snd (get_guild_config empty_world 42)) 42) = default_guild_config
   \<and> saves (snd (get_guild_config empty_world 42)) = 1
   \<and> saves (snd (get_guild_config (snd (get_guild_config empty_world 42)) 42)) = 1"
proof -
  have a: "cfg empty_world (guild_key 42) = None" by (simp add: empty_world_def)
  have s: "saves empty_world = 0" by (simp add: empty_world_def)
  from a s get_guild_config_twice [OF a] show ?thesis by simp
qed


section \<open>Reaction trigger\<close>

lemma get_guild_config_frame:
  "trace (snd (get_guild_config w gid)) = trace w
   \<and> drawn (snd (get_guild_config w gid)) = drawn w
   \<and> msgs (snd (get_guild_config w gid)) = msgs w"
  by (cases "cfg w (guild_key gid)")
     (simp_all add: get_guild_config_absent get_guild_config_present)

lemma get_guild_config_fst:
  "fst (get_guild_config w gid) =
     (case cfg w (guild_key gid) of None \<Rightarrow> default_guild_config | Some gc \<Rightarrow> gc)"
  by (cases "cfg w (guild_key gid)")
     (simp_all add: get_guild_config_absent get_guild_config_present)

lemma truthy_None: "\<not> truthy None"
  by (simp add: truthy_def)

lemma default_unbound: "\<not> truthy (trigger_message_id default_guild_config)"
  by (simp add: default_guild_config_def truthy_def)

text \<open>The steps of the dispatch leave the stored configuration alone.\<close>

lemma resolve_user_store:
  "cfg (snd (resolve_user P payload g w)) = cfg w
   \<and> disk (snd (resolve_user P payload g w)) = disk w
   \<and> saves (snd (resolve_user P payload g w)) = saves w"
  by (simp add: resolve_user_def split: option.splits)

lemma roll_d100_store:
  "cfg (snd (roll_d100 P w)) = cfg w \<and> disk (snd (roll_d100 P w)) = disk w
   \<and> saves (snd (roll_d100 P w)) = saves w"
  by (simp add: roll_d100_def secrets_randbelow_def)

lemma weighted_choice_store:
  "cfg (snd (weighted_choice P outs w)) = cfg w \<and> disk (snd (weighted_choice P outs w)) = disk w
   \<and> saves (snd (weighted_choice P outs w)) = saves w"
  by (simp add: weighted_choice_def secrets_randbelow_def)

lemma log_roll_store:
  "cfg (snd (log_roll P g gconf usr d n ok w)) = cfg w
   \<and> disk (snd (log_roll P g gconf usr d n ok w)) = disk w
   \<and> saves (snd (log_roll P g gconf usr d n ok w)) = saves w"
  by (simp add: log_roll_def Let_def split: option.splits channel.splits)

lemma remove_reaction_store:
  "cfg (remove_reaction P payload g usr w) = cfg w
   \<and> disk (remove_reaction P payload g usr w) = disk w
   \<and> saves (remove_reaction P payload g usr w) = saves w"
  by (simp add: remove_reaction_def Let_def split: option.splits channel.splits sum.splits)

lemma dispatch_store:
  "cfg (snd (dispatch P payload g gconf w)) = cfg w
   \<and> disk (snd (dispatch P payload g gconf w)) = disk w
   \<and> saves (snd (dispatch P payload g gconf w)) = saves w"
proof -
  obtain ru w1 where ru: "resolve_user P payload g w = (ru, w1)" by (cases "resolve_user P payload g w")
  with resolve_user_store [of P payload g w]
  have s1: "cfg w1 = cfg w" "disk w1 = disk w" "saves w1 = saves w" by simp_all
  show ?thesis
  proof (cases ru)
    case (Inl e)
    with ru s1 show ?thesis by (simp add: dispatch_def)
  next
    case (Inr usr)
    obtain d w2 where rd: "roll_d100 P w1 = (d, w2)" by (cases "roll_d100 P w1")
    with roll_d100_store [of P w1] s1
    have s2: "cfg w2 = cfg w" "disk w2 = disk w" "saves w2 = saves w" by simp_all
    obtain wc w3 where rw: "weighted_choice P (outcomes gconf) w2 = (wc, w3)"
      by (cases "weighted_choice P (outcomes gconf) w2")
    with weighted_choice_store [of P "outcomes gconf" w2] s2
    have s3: "cfg w3 = cfg w" "disk w3 = disk w" "saves w3 = saves w" by simp_all
    show ?thesis
    proof (cases wc)
      case (Inl e)
      with ru Inr rd rw s3 show ?thesis by (simp add: dispatch_def)
    next
      case n: (Inr n)
      let ?w4 = "w3\<lparr> trace := trace w3 @ [SendDM usr d n (trigger_emoji gconf) (g_name g)] \<rparr>"
      let ?ok = "dm_error P (u_id usr) = None"
      obtain le w5 where rl: "log_roll P g gconf usr d n ?ok ?w4 = (le, w5)"
        by (cases "log_roll P g gconf usr d n ?ok ?w4")
      with log_roll_store [of P g gconf usr d n ?ok ?w4] s3
      have s5: "cfg w5 = cfg w" "disk w5 = disk w" "saves w5 = saves w" by simp_all
      show ?thesis
      proof (cases le)
        case None
        with ru Inr rd rw n rl s5 remove_reaction_store [of P payload g usr w5]
        show ?thesis by (simp add: dispatch_def Let_def)
      next
        case (Some e)
        with ru Inr rd rw n rl s5 show ?thesis by (simp add: dispatch_def Let_def)
      qed
    qed
  qed
qed


lemma handler_own_reaction:
  "user_id payload = bot_user_id P \<Longrightarrow> on_raw_reaction_add P payload w = (None, w)"
  by (simp add: on_raw_reaction_add_def)

lemma handler_no_guild:
  "resolve_guild P payload = None \<Longrightarrow> on_raw_reaction_add P payload w = (None, w)"
  by (simp add: on_raw_reaction_add_def)

lemma resolve_guild_no_id: "guild_id payload = None \<Longrightarrow> resolve_guild P payload = None"
  by (simp add: resolve_guild_def truthy_def)

lemma handler_ignores_when:
  assumes "user_id payload \<noteq> bot_user_id P" and "resolve_guild P payload = Some g"
    and "\<not> truthy (trigger_message_id (fst (get_guild_config w (g_id g))))
         \<or> \<not> truthy (trigger_channel_id (fst (get_guild_config w (g_id g))))
         \<or> Some (message_id payload) \<noteq> trigger_message_id (fst (get_guild_config w (g_id g)))
         \<or> Some (channel_id payload) \<noteq> trigger_channel_id (fst (get_guild_config w (g_id g)))
         \<or> emoji payload \<noteq> trigger_emoji (fst (get_guild_config w (g_id g)))"
  shows "on_raw_reaction_add P payload w = (None, snd (get_guild_config w (g_id g)))"
proof -
  obtain gc w1 where e: "get_guild_config w (g_id g) = (gc, w1)"
    by (cases "get_guild_config w (g_id g)")
  with assms(3) have
    "\<not> truthy (trigger_message_id gc) \<or> \<not> truthy (trigger_channel_id gc)
     \<or> Some (message_id payload) \<noteq> trigger_message_id gc
     \<or> Some (channel_id payload) \<noteq> trigger_channel_id gc
     \<or> emoji payload \<noteq> trigger_emoji gc" by simp
  with assms(1,2) e show ?thesis
    by (auto simp: on_raw_reaction_add_def)
qed

lemma handler_dispatches_when:
  assumes "user_id payload \<noteq> bot_user_id P" and "resolve_guild P payload = Some g"
    and "get_guild_config w (g_id g) = (gc, w1)"
    and "truthy (trigger_message_id gc)" and "truthy (trigger_channel_id gc)"
    and "Some (message_id payload) = trigger_message_id gc"
    and "Some (channel_id payload) = trigger_channel_id gc"
    and "emoji payload = trigger_emoji gc"
  shows "on_raw_reaction_add P payload w = dispatch P payload g gc w1"
  using assms by (simp add: on_raw_reaction_add_def)

text \<open>
  C6. A reaction event is ignored: the handler returns without making any call on the
  platform (no direct message, no log post, no fetch or removal of the reaction) and
  without taking a random sample, when the reactor is the bot itself, when the event has no
  guild or the guild cannot be resolved, when the guild has no stored configuration, when a
  part of the trigger binding is unset, when the event's message id or channel id differs
  from the binding, or when the emoji text differs from the configured emoji.
\<close>

theorem reaction_ignored:
  assumes "user_id payload = bot_user_id P
     \<or> guild_id payload = None
     \<or> resolve_guild P payload = None
     \<or> (\<exists>g. resolve_guild P payload = Some g \<and>
          (cfg w (guild_key (g_id g)) = None
           \<or> (\<exists>gc. cfg w (guild_key (g_id g)) = Some gc \<and>
                (trigger_message_id gc = None \<or> trigger_channel_id gc = None
                 \<or> trigger_message_id gc \<noteq> Some (message_id payload)
                 \<or> trigger_channel_id gc \<noteq> Some (channel_id payload)
                 \<or> emoji payload \<noteq> trigger_emoji gc))))"
  shows "fst (on_raw_reaction_add P payload w) = None
       \<and> trace (snd (on_raw_reaction_add P payload w)) = trace w
       \<and> drawn (snd (on_raw_reaction_add P payload w)) = drawn w
       \<and> msgs (snd (on_raw_reaction_add P payload w)) = msgs w"
proof (cases "user_id payload = bot_user_id P \<or> resolve_guild P payload = None")
  case True
  then have "on_raw_reaction_add P payload w = (None, w)"
    using handler_own_reaction [of payload P w] handler_no_guild [of P payload w] by blast
  then show ?thesis by simp
next
  case False
  then have nb: "user_id payload \<noteq> bot_user_id P" and "resolve_guild P payload \<noteq> None"
    by simp_all
  then obtain g where g: "resolve_guild P payload = Some g" by blast
  from g have gid: "guild_id payload \<noteq> None"
    using resolve_guild_no_id [of payload P] by auto
  from assms nb g gid have c:
    "cfg w (guild_key (g_id g)) = None
     \<or> (\<exists>gc. cfg w (guild_key (g_id g)) = Some gc \<and>
           (trigger_message_id gc = None \<or> trigger_channel_id gc = None
            \<or> trigger_message_id gc \<noteq> Some (message_id payload)
            \<or> trigger_channel_id gc \<noteq> Some (channel_id payload)
            \<or> emoji payload \<noteq> trigger_emoji gc))" by simp
  have "\<not> truthy (trigger_message_id (fst (get_guild_config w (g_id g))))
         \<or> \<not> truthy (trigger_channel_id (fst (get_guild_config w (g_id g))))
         \<or> Some (message_id payload) \<noteq> trigger_message_id (fst (get_guild_config w (g_id g)))
         \<or> Some (channel_id payload) \<noteq> trigger_channel_id (fst (get_guild_config w (g_id g)))
         \<or> emoji payload \<noteq> trigger_emoji (fst (get_guild_config w (g_id g)))"
  proof (cases "cfg w (guild_key (g_id g))")
    case None
    then show ?thesis by (simp add: get_guild_config_fst default_unbound)
  next
    case (Some gc)
    with c show ?thesis by (auto simp: get_guild_config_fst truthy_def)
  qed
  from handler_ignores_when [OF nb g this] get_guild_config_frame [of w "g_id g"]
  show ?thesis by simp
qed


lemma example_guilds:
  "resolve_guild bot_platform user_event = Some guild7"
  "resolve_guild bot_platform own_event = Some guild7"
  "resolve_guild bot_platform other_message_event = Some guild7"
  "g_id guild7 = 7"
  by (simp_all add: resolve_guild_def truthy_def bot_platform_def user_event_def own_event_def
        other_message_event_def guild7_def)

lemma example_configs:
  "cfg roller_world (guild_key 7) = Some roller_config"
  "cfg empty_world (guild_key 7) = None"
  "trace roller_world = []" "trace empty_world = []"
  "drawn roller_world = 0" "drawn empty_world = 0"
  by (simp_all add: roller_world_def empty_world_def)

text \<open>The same event on the bound message is dispatched: a direct message, a log post
  and the removal of the reaction, with rolls taken from two samples.\<close>

lemma dispatch_example:
  "on_raw_reaction_add bot_platform user_event roller_world =
     (None,
      roller_world
        \<lparr> drawn := 2,
          trace :=
            [SendDM \<lparr> u_id = 55 \<rparr> 42 (ascii ''powers, blessing'') [127922] (ascii ''Guild''),
             LogPost 900 \<lparr> u_id = 55 \<rparr> 42 (ascii ''powers, blessing'') True (Some 500) (Some 600),
             FetchMessage 600 500,
             RemoveReaction 600 500 [127922] \<lparr> u_id = 55 \<rparr>] \<rparr>)"
proof -
  have g: "get_guild_config roller_world (g_id guild7) = (roller_config, roller_world)"
    using example_configs(1) example_guilds(4) by (simp add: get_guild_config_present)
  have h: "on_raw_reaction_add bot_platform user_event roller_world
             = dispatch bot_platform user_event guild7 roller_config roller_world"
    by (rule handler_dispatches_when [OF _ example_guilds(1) g])
       (simp_all add: bot_platform_def user_event_def roller_config_def truthy_def
          default_guild_config_def)
  have d: "dispatch bot_platform user_event guild7 roller_config roller_world =
     (None,
      roller_world
        \<lparr> drawn := 2,
          trace :=
            [SendDM \<lparr> u_id = 55 \<rparr> 42 (ascii ''powers, blessing'') [127922] (ascii ''Guild''),
             LogPost 900 \<lparr> u_id = 55 \<rparr> 42 (ascii ''powers, blessing'') True (Some 500) (Some 600),
             FetchMessage 600 500,
             RemoveReaction 600 500 [127922] \<lparr> u_id = 55 \<rparr>] \<rparr>)"
    by (simp add: dispatch_def resolve_user_def roll_d100_def roll_d100_at_def
          weighted_choice_def weighted_choice_at_def secrets_randbelow_def log_roll_def
          remove_reaction_def fetch_message_def truthy_def Let_def
          bot_platform_def user_event_def guild7_def roller_config_def roller_world_def
          default_guild_config_def)
  from h d show ?thesis by simp
qed

theorem reaction_ignored_witness:
  "user_id own_event = bot_user_id bot_platform
   \<and> trace (snd (on_raw_reaction_add bot_platform own_event roller_world)) = []
   \<and> drawn (snd (on_raw_reaction_add bot_platform own_event roller_world)) = 0
   \<and> trigger_message_id roller_config \<noteq> Some (message_id other_message_event)
   \<and> trace (snd (on_raw_reaction_add bot_platform other_message_event roller_world)) = []
   \<and> drawn (snd (on_raw_reaction_add bot_platform other_message_event roller_world)) = 0
   \<and> cfg empty_world (guild_key (g_id guild7)) = None
   \<and> trace (snd (on_raw_reaction_add bot_platform user_event empty_world)) = []
   \<and> drawn (snd (on_raw_reaction_add bot_platform user_event empty_world)) = 0
   \<and> length (trace (snd (on_raw_reaction_add bot_platform user_event roller_world))) = 4"
proof -
  have own: "user_id own_event = bot_user_id bot_platform"
    by (simp add: own_event_def user_event_def bot_platform_def)
  have mm: "trigger_message_id roller_config \<noteq> Some (message_id other_message_event)"
    by (simp add: roller_config_def other_message_event_def user_event_def)
  have nc: "cfg empty_world (guild_key (g_id guild7)) = None"
    by (simp add: example_guilds(4) example_configs(2))
  have a: "trace (snd (on_raw_reaction_add bot_platform own_event roller_world)) = []
           \<and> drawn (snd (on_raw_reaction_add bot_platform own_event roller_world)) = 0"
    using reaction_ignored [of own_event bot_platform roller_world] own example_configs
    by simp
  have b: "trace (snd (on_raw_reaction_add bot_platform other_message_event roller_world)) = []
           \<and> drawn (snd (on_raw_reaction_add bot_platform other_message_event roller_world)) = 0"
    using reaction_ignored [of other_message_event bot_platform roller_world] mm
      example_guilds example_configs
    by simp
  have c: "trace (snd (on_raw_reaction_add bot_platform user_event empty_world)) = []
           \<and> drawn (snd (on_raw_reaction_add bot_platform user_event empty_world)) = 0"
    using reaction_ignored [of user_event bot_platform empty_world] nc
      example_guilds example_configs
    by simp
  have d: "length (trace (snd (on_raw_reaction_add bot_platform user_event roller_world))) = 4"
    by (simp add: dispatch_example)
  from own mm nc a b c d show ?thesis by simp
qed


lemma handler_with_config:
  assumes "user_id payload \<noteq> bot_user_id P" and "resolve_guild P payload = Some g"
    and "cfg w (guild_key (g_id g)) = Some gc"
  shows "on_raw_reaction_add P payload w = (None, w)
       \<or> on_raw_reaction_add P payload w = dispatch P payload g gc w"
  using assms by (simp add: on_raw_reaction_add_def get_guild_config_present)

lemma handler_store_with_config:
  assumes "user_id payload \<noteq> bot_user_id P" and "resolve_guild P payload = Some g"
    and "cfg w (guild_key (g_id g)) = Some gc"
  shows "cfg (snd (on_raw_reaction_add P payload w)) = cfg w
       \<and> disk (snd (on_raw_reaction_add P payload w)) = disk w
       \<and> saves (snd (on_raw_reaction_add P payload w)) = saves w"
  using handler_with_config [OF assms] dispatch_store [of P payload g gc w] by auto

lemma handler_without_config:
  assumes "user_id payload \<noteq> bot_user_id P" and "resolve_guild P payload = Some g"
    and "cfg w (guild_key (g_id g)) = None"
  shows "on_raw_reaction_add P payload w =
       (None,
        w\<lparr> cfg := (cfg w)(guild_key (g_id g) \<mapsto> default_guild_config),
           disk := Some ((cfg w)(guild_key (g_id g) \<mapsto> default_guild_config)),
           saves := Suc (saves w) \<rparr>)"
proof -
  from assms(3) have f: "fst (get_guild_config w (g_id g)) = default_guild_config"
    by (simp add: get_guild_config_fst)
  have "on_raw_reaction_add P payload w = (None, snd (get_guild_config w (g_id g)))"
    by (rule handler_ignores_when [OF assms(1,2)]) (simp add: f default_unbound)
  with assms(3) show ?thesis by (simp add: get_guild_config_absent)
qed

text \<open>
  C10, as the code has it. Every reaction event of a user other than the bot itself, in a
  guild that resolves, runs \<open>get_guild_config\<close> before the checks of the trigger binding
  and of the emoji: whatever the event's message, channel and emoji are, a guild without a
  record gets the default record, stored and written to the file (one save), although the
  event is then ignored; a guild with a record keeps it. No record under another key, so
  of no other guild, is changed.
\<close>

theorem reaction_creates_default_config:
  assumes "user_id payload \<noteq> bot_user_id P" and "resolve_guild P payload = Some g"
  shows "(cfg w (guild_key (g_id g)) = None \<longrightarrow>
            fst (on_raw_reaction_add P payload w) = None
          \<and> cfg (snd (on_raw_reaction_add P payload w)) (guild_key (g_id g))
              = Some default_guild_config
          \<and> disk (snd (on_raw_reaction_add P payload w))
              = Some (cfg (snd (on_raw_reaction_add P payload w)))
          \<and> saves (snd (on_raw_reaction_add P payload w)) = Suc (saves w)
          \<and> trace (snd (on_raw_reaction_add P payload w)) = trace w
          \<and> drawn (snd (on_raw_reaction_add P payload w)) = drawn w)
       \<and> (cfg w (guild_key (g_id g)) \<noteq> None \<longrightarrow>
            cfg (snd (on_raw_reaction_add P payload w)) = cfg w
          \<and> disk (snd (on_raw_reaction_add P payload w)) = disk w
          \<and> saves (snd (on_raw_reaction_add P payload w)) = saves w)
       \<and> (\<forall>k. k \<noteq> guild_key (g_id g) \<longrightarrow>
            cfg (snd (on_raw_reaction_add P payload w)) k = cfg w k)
       \<and> (\<forall>gid. gid \<noteq> g_id g \<longrightarrow>
            cfg (snd (on_raw_reaction_add P payload w)) (guild_key gid) = cfg w (guild_key gid))"
proof (cases "cfg w (guild_key (g_id g))")
  case None
  have ne: "guild_key gid \<noteq> guild_key (g_id g)" if "gid \<noteq> g_id g" for gid
    using that guild_key_inj [of gid "g_id g"] by blast
  from handler_without_config [OF assms None] None ne show ?thesis by simp
next
  case (Some gc)
  from handler_store_with_config [OF assms Some] Some show ?thesis by simp
qed

theorem reaction_creates_default_config_witness:
  "user_id user_event \<noteq> bot_user_id bot_platform
   \<and> resolve_guild bot_platform user_event = Some guild7
   \<and> cfg empty_world (guild_key (g_id guild7)) = None
   \<and> cfg (snd (on_raw_reaction_add bot_platform user_event empty_world)) (guild_key (g_id guild7))
       = Some default_guild_config
   \<and> saves (snd (on_raw_reaction_add bot_platform user_event empty_world)) = 1
   \<and> disk (snd (on_raw_reaction_add bot_platform user_event empty_world))
       = Some (cfg (snd (on_raw_reaction_add bot_platform user_event empty_world)))
   \<and> trace (snd (on_raw_reaction_add bot_platform user_event empty_world)) = []"
proof -
  have nb: "user_id user_event \<noteq> bot_user_id bot_platform"
    by (simp add: user_event_def bot_platform_def)
  have nc: "cfg empty_world (guild_key (g_id guild7)) = None"
    by (simp add: example_guilds(4) example_configs(2))
  have s: "saves empty_world = 0" by (simp add: empty_world_def)
  from nb nc s example_configs(4)
    reaction_creates_default_config [OF nb example_guilds(1), of empty_world]
  show ?thesis by (simp add: example_guilds(1))
qed

text \<open>
  The same does not hold of the bot's own reaction in a guild that resolves: the handler
  returns at its first check, and a guild without a record is left without one and nothing
  is saved.
\<close>

theorem own_reaction_creates_no_config:
  "user_id own_event = bot_user_id bot_platform
   \<and> resolve_guild bot_platform own_event = Some guild7
   \<and> cfg empty_world (guild_key (g_id guild7)) = None
   \<and> on_raw_reaction_add bot_platform own_event empty_world = (None, empty_world)
   \<and> cfg (snd (on_raw_reaction_add bot_platform own_event empty_world)) (guild_key (g_id guild7))
       = None
   \<and> saves (snd (on_raw_reaction_add bot_platform own_event empty_world)) = 0
   \<and> disk (snd (on_raw_reaction_add bot_platform own_event empty_world)) = None"
proof -
  have own: "user_id own_event = bot_user_id bot_platform"
    by (simp add: own_event_def user_event_def bot_platform_def)
  have nc: "cfg empty_world (guild_key (g_id guild7)) = None"
    by (simp add: example_guilds(4) example_configs(2))
  have r: "on_raw_reaction_add bot_platform own_event empty_world = (None, empty_world)"
    using own by (rule handler_own_reaction)
  have s: "saves empty_world = 0" "disk empty_world = None" by (simp_all add: empty_world_def)
  from own nc r s example_guilds(2) show ?thesis by simp
qed

section \<open>The two draws\<close>







section \<open>Editing a roll log\<close>

lemma respond_msgs: "msgs (respond r w) = msgs w"
  by (simp add: respond_def)

lemma editrolllog_msgs:
  "msgs (snd (editrolllog P i s t w)) = msgs w
   \<or> (\<exists>g mc c mid m.
         i_guild i = Some g \<and> is_mod i
         \<and> mod_channel_id (fst (get_guild_config w (g_id g))) = Some mc \<and> mc \<noteq> 0
         \<and> get_channel g mc = Some (TextChannel c)
         \<and> py_int s = Inr mid
         \<and> fetch_error P c mid = None
         \<and> msgs w (c, mid) = Some m \<and> author_id m = bot_user_id P
         \<and> edit_error P c mid = None
         \<and> msgs (snd (editrolllog P i s t w)) = (msgs w)((c, mid) \<mapsto> m\<lparr> content := t \<rparr>))"
proof (cases "i_guild i")
  case None
  then show ?thesis by (simp add: editrolllog_def respond_msgs)
next
  case (Some g)
  obtain gc w1 where e: "get_guild_config w (g_id g) = (gc, w1)"
    by (cases "get_guild_config w (g_id g)")
  with get_guild_config_frame [of w "g_id g"] have m1: "msgs w1 = msgs w" by simp
  show ?thesis
  proof (cases "is_mod i \<and> truthy (mod_channel_id gc)")
    case False
    with Some e m1 show ?thesis by (auto simp: editrolllog_def respond_msgs)
  next
    case True
    then obtain mc where mc: "mod_channel_id gc = Some mc" "mc \<noteq> 0"
      by (auto simp: truthy_def split: option.splits)
    show ?thesis
    proof (cases "\<exists>c. get_channel g mc = Some (TextChannel c)")
      case False
      with Some e m1 True mc show ?thesis
        by (auto simp: editrolllog_def respond_msgs split: option.splits channel.splits)
    next
      case ch: True
      then obtain c where c: "get_channel g mc = Some (TextChannel c)" by blast
      show ?thesis
      proof (cases "py_int s")
        case (Inl x)
        with Some e m1 True mc c show ?thesis by (simp add: editrolllog_def respond_msgs)
      next
        case (Inr mid)
        let ?w2 = "w1\<lparr> trace := trace w1 @ [FetchMessage c mid] \<rparr>"
        show ?thesis
        proof (cases "fetch_message P ?w2 c mid")
          case (Inl x)
          with Some e m1 True mc c Inr show ?thesis
            by (cases x) (simp_all add: editrolllog_def respond_msgs Let_def)
        next
          case fm: (Inr m)
          then have f: "fetch_error P c mid = None" "msgs w (c, mid) = Some m"
            using m1 by (auto simp: fetch_message_def split: option.splits)
          show ?thesis
          proof (cases "author_id m = bot_user_id P")
            case False
            with Some e m1 True mc c Inr fm show ?thesis
              by (simp add: editrolllog_def respond_msgs Let_def)
          next
            case own: True
            show ?thesis
            proof (cases "edit_error P c mid")
              case None
              with Some e m1 True mc c Inr fm f own show ?thesis
                by (simp add: editrolllog_def edit_message_def respond_msgs Let_def)
            next
              case (Some x)
              with \<open>i_guild i = Some g\<close> e m1 True mc c Inr fm own show ?thesis
                by (simp add: editrolllog_def edit_message_def respond_msgs Let_def)
            qed
          qed
        qed
      qed
    qed
  qed
qed


lemma py_int_examples:
  "py_int (ascii ''1001'') = Inr 1001"
  "py_int (ascii ''1000'') = Inr 1000"
  "py_int (ascii ''1002'') = Inr 1002"
  "py_int (ascii ''abc'') = Inl ValueError"
  "py_int (ascii '' +1_0 '') = Inr 10"
  "py_int (ascii ''-7'') = Inr (- 7)"
  "py_int [178] = Inl ValueError"
  "py_int [1636, 50] = Inr 42"
  by (simp_all add: py_int_def is_ascii_digit_def c_isspace_def ascii_def Let_def
        py_isspace_def in_ranges_def space_ranges_def decimal_value_def decimal_ranges_def)

lemma py_int_error: "py_int s = Inl e \<Longrightarrow> e = ValueError"
  by (auto simp: py_int_def Let_def split: option.splits list.splits if_splits)

text \<open>
  C7. \<open>editrolllog\<close>, called in a guild by a moderator, answers with an error and leaves
  every message as it was when the guild has no mod channel configured, when the mod
  channel does not resolve to a text channel, when the message id is not a number, when no
  such message is in the mod channel, and when the message's author is not the bot. A
  message is changed only when all of these checks pass, and then it is the fetched message
  of the mod channel that receives the new text.
\<close>

theorem editrolllog_guards:
  "(i_guild i = Some g \<and> is_mod i
      \<and> \<not> truthy (mod_channel_id (fst (get_guild_config w (g_id g)))) \<longrightarrow>
      editrolllog P i s t w
        = (None, respond ModChannelNotSet (snd (get_guild_config w (g_id g))))
      \<and> msgs (snd (editrolllog P i s t w)) = msgs w)
   \<and> (i_guild i = Some g \<and> is_mod i
      \<and> mod_channel_id (fst (get_guild_config w (g_id g))) = Some mc \<and> mc \<noteq> 0
      \<and> (\<forall>c. get_channel g mc \<noteq> Some (TextChannel c)) \<longrightarrow>
      editrolllog P i s t w
        = (None, respond ModChannelNotFound (snd (get_guild_config w (g_id g))))
      \<and> msgs (snd (editrolllog P i s t w)) = msgs w)
   \<and> (i_guild i = Some g \<and> is_mod i
      \<and> mod_channel_id (fst (get_guild_config w (g_id g))) = Some mc \<and> mc \<noteq> 0
      \<and> get_channel g mc = Some (TextChannel c)
      \<and> py_int s = Inl ValueError \<longrightarrow>
      editrolllog P i s t w
        = (None, respond MessageIdNotNumber (snd (get_guild_config w (g_id g))))
      \<and> msgs (snd (editrolllog P i s t w)) = msgs w)
   \<and> (i_guild i = Some g \<and> is_mod i
      \<and> mod_channel_id (fst (get_guild_config w (g_id g))) = Some mc \<and> mc \<noteq> 0
      \<and> get_channel g mc = Some (TextChannel c)
      \<and> py_int s = Inr mid
      \<and> fetch_error P c mid = None \<and> msgs w (c, mid) = None \<longrightarrow>
      editrolllog P i s t w
        = (None, respond MessageNotFound
             ((snd (get_guild_config w (g_id g)))
                \<lparr> trace := trace (snd (get_guild_config w (g_id g))) @ [FetchMessage c mid] \<rparr>))
      \<and> msgs (snd (editrolllog P i s t w)) = msgs w)
   \<and> (i_guild i = Some g \<and> is_mod i
      \<and> mod_channel_id (fst (get_guild_config w (g_id g))) = Some mc \<and> mc \<noteq> 0
      \<and> get_channel g mc = Some (TextChannel c)
      \<and> py_int s = Inr mid
      \<and> fetch_error P c mid = None \<and> msgs w (c, mid) = Some m
      \<and> author_id m \<noteq> bot_user_id P \<longrightarrow>
      editrolllog P i s t w
        = (None, respond NotOwnMessage
             ((snd (get_guild_config w (g_id g)))
                \<lparr> trace := trace (snd (get_guild_config w (g_id g))) @ [FetchMessage c mid] \<rparr>))
      \<and> msgs (snd (editrolllog P i s t w)) = msgs w)
   \<and> (msgs (snd (editrolllog P i s t w)) \<noteq> msgs w \<longrightarrow>
        (\<exists>g mc c mid m.
           i_guild i = Some g \<and> is_mod i
           \<and> mod_channel_id (fst (get_guild_config w (g_id g))) = Some mc \<and> mc \<noteq> 0
           \<and> get_channel g mc = Some (TextChannel c)
           \<and> py_int s = Inr mid
           \<and> fetch_error P c mid = None
           \<and> msgs w (c, mid) = Some m \<and> author_id m = bot_user_id P
           \<and> edit_error P c mid = None
           \<and> msgs (snd (editrolllog P i s t w)) = (msgs w)((c, mid) \<mapsto> m\<lparr> content := t \<rparr>)))
   \<and> (i_guild i = Some g \<and> is_mod i
      \<and> mod_channel_id (fst (get_guild_config w (g_id g))) = Some mc \<and> mc \<noteq> 0
      \<and> get_channel g mc = Some (TextChannel c)
      \<and> py_int s = Inr mid
      \<and> fetch_error P c mid = None \<and> msgs w (c, mid) = Some m
      \<and> author_id m = bot_user_id P \<and> edit_error P c mid = None \<longrightarrow>
      fst (editrolllog P i s t w) = None
      \<and> msgs (snd (editrolllog P i s t w)) = (msgs w)((c, mid) \<mapsto> m\<lparr> content := t \<rparr>)
      \<and> last (trace (snd (editrolllog P i s t w))) = Reply Edited)"
proof -
  obtain gc w1 where e: "get_guild_config w (g_id g) = (gc, w1)"
    by (cases "get_guild_config w (g_id g)")
  with get_guild_config_frame [of w "g_id g"] have m1: "msgs w1 = msgs w" by simp
  have tr: "mod_channel_id gc = Some mc \<Longrightarrow> mc \<noteq> 0 \<Longrightarrow> truthy (mod_channel_id gc)"
    by (simp add: truthy_def)
  have a: "i_guild i = Some g \<and> is_mod i \<and> \<not> truthy (mod_channel_id gc) \<longrightarrow>
      editrolllog P i s t w = (None, respond ModChannelNotSet w1)
      \<and> msgs (snd (editrolllog P i s t w)) = msgs w"
    using e m1 by (simp add: editrolllog_def respond_msgs)
  have b: "i_guild i = Some g \<and> is_mod i \<and> mod_channel_id gc = Some mc \<and> mc \<noteq> 0
      \<and> (\<forall>c. get_channel g mc \<noteq> Some (TextChannel c)) \<longrightarrow>
      editrolllog P i s t w = (None, respond ModChannelNotFound w1)
      \<and> msgs (snd (editrolllog P i s t w)) = msgs w"
    using e m1 tr
    by (auto simp: editrolllog_def respond_msgs split: option.splits channel.splits)
  have c: "i_guild i = Some g \<and> is_mod i \<and> mod_channel_id gc = Some mc \<and> mc \<noteq> 0
      \<and> get_channel g mc = Some (TextChannel c) \<and> py_int s = Inl ValueError \<longrightarrow>
      editrolllog P i s t w = (None, respond MessageIdNotNumber w1)
      \<and> msgs (snd (editrolllog P i s t w)) = msgs w"
    using e m1 tr by (simp add: editrolllog_def respond_msgs)
  have d: "i_guild i = Some g \<and> is_mod i \<and> mod_channel_id gc = Some mc \<and> mc \<noteq> 0
      \<and> get_channel g mc = Some (TextChannel c) \<and> py_int s = Inr mid
      \<and> fetch_error P c mid = None \<and> msgs w (c, mid) = None \<longrightarrow>
      editrolllog P i s t w
        = (None, respond MessageNotFound (w1\<lparr> trace := trace w1 @ [FetchMessage c mid] \<rparr>))
      \<and> msgs (snd (editrolllog P i s t w)) = msgs w"
    using e m1 tr by (simp add: editrolllog_def respond_msgs fetch_message_def Let_def)
  have f: "i_guild i = Some g \<and> is_mod i \<and> mod_channel_id gc = Some mc \<and> mc \<noteq> 0
      \<and> get_channel g mc = Some (TextChannel c) \<and> py_int s = Inr mid
      \<and> fetch_error P c mid = None \<and> msgs w (c, mid) = Some m
      \<and> author_id m \<noteq> bot_user_id P \<longrightarrow>
      editrolllog P i s t w
        = (None, respond NotOwnMessage (w1\<lparr> trace := trace w1 @ [FetchMessage c mid] \<rparr>))
      \<and> msgs (snd (editrolllog P i s t w)) = msgs w"
    using e m1 tr by (simp add: editrolllog_def respond_msgs fetch_message_def Let_def)
  have h: "i_guild i = Some g \<and> is_mod i \<and> mod_channel_id gc = Some mc \<and> mc \<noteq> 0
      \<and> get_channel g mc = Some (TextChannel c) \<and> py_int s = Inr mid
      \<and> fetch_error P c mid = None \<and> msgs w (c, mid) = Some m
      \<and> author_id m = bot_user_id P \<and> edit_error P c mid = None \<longrightarrow>
      fst (editrolllog P i s t w) = None
      \<and> msgs (snd (editrolllog P i s t w)) = (msgs w)((c, mid) \<mapsto> m\<lparr> content := t \<rparr>)
      \<and> last (trace (snd (editrolllog P i s t w))) = Reply Edited"
    using e m1 tr
    by (simp add: editrolllog_def edit_message_def respond_def fetch_message_def Let_def)
  have k: "msgs (snd (editrolllog P i s t w)) \<noteq> msgs w \<longrightarrow>
        (\<exists>g mc c mid m.
           i_guild i = Some g \<and> is_mod i
           \<and> mod_channel_id (fst (get_guild_config w (g_id g))) = Some mc \<and> mc \<noteq> 0
           \<and> get_channel g mc = Some (TextChannel c)
           \<and> py_int s = Inr mid
           \<and> fetch_error P c mid = None
           \<and> msgs w (c, mid) = Some m \<and> author_id m = bot_user_id P
           \<and> edit_error P c mid = None
           \<and> msgs (snd (editrolllog P i s t w)) = (msgs w)((c, mid) \<mapsto> m\<lparr> content := t \<rparr>))"
    using editrolllog_msgs [of P i s t w] by blast
  from a b c d f h k show ?thesis unfolding e fst_conv snd_conv by (intro conjI)
qed


lemma example_interaction:
  "i_guild mod_interaction = Some guild7" "is_mod mod_interaction"
  by (simp_all add: mod_interaction_def is_mod_def)

lemma example_roller_store:
  "get_guild_config roller_world (g_id guild7) = (roller_config, roller_world)"
  "get_guild_config empty_world (g_id guild7)
     = (default_guild_config,
        empty_world
          \<lparr> cfg := (cfg empty_world)(guild_key 7 \<mapsto> default_guild_config),
            disk := Some ((cfg empty_world)(guild_key 7 \<mapsto> default_guild_config)),
            saves := Suc (saves empty_world) \<rparr>)"
  "mod_channel_id roller_config = Some 900"
  "mod_channel_id default_guild_config = None"
  "get_channel guild7 900 = Some (TextChannel 900)"
  "fetch_error bot_platform c mid = None"
  "edit_error bot_platform c mid = None"
  "bot_user_id bot_platform = 1"
  "msgs roller_world (900, 1000) = Some \<lparr> author_id = 1, content = ascii ''Roll Log'' \<rparr>"
  "msgs roller_world (900, 1001) = Some \<lparr> author_id = 55, content = ascii ''hello'' \<rparr>"
  "msgs roller_world (900, 1002) = None"
  using example_configs(1,2) example_guilds(4)
  by (simp_all add: get_guild_config_present get_guild_config_absent
        roller_config_def default_guild_config_def guild7_def bot_platform_def roller_world_def)

theorem editrolllog_guards_witness:
  "i_guild mod_interaction = Some guild7 \<and> is_mod mod_interaction
   \<and> msgs roller_world (900, 1001) = Some \<lparr> author_id = 55, content = ascii ''hello'' \<rparr>
   \<and> last (trace (snd (editrolllog bot_platform mod_interaction (ascii ''1001'') (ascii ''new'')
                          roller_world))) = Reply NotOwnMessage
   \<and> msgs (snd (editrolllog bot_platform mod_interaction (ascii ''1001'') (ascii ''new'')
                   roller_world)) = msgs roller_world
   \<and> last (trace (snd (editrolllog bot_platform mod_interaction (ascii ''abc'') (ascii ''new'')
                          roller_world))) = Reply MessageIdNotNumber
   \<and> msgs (snd (editrolllog bot_platform mod_interaction (ascii ''abc'') (ascii ''new'')
                   roller_world)) = msgs roller_world
   \<and> last (trace (snd (editrolllog bot_platform mod_interaction (ascii ''1002'') (ascii ''new'')
                          roller_world))) = Reply MessageNotFound
   \<and> msgs (snd (editrolllog bot_platform mod_interaction (ascii ''1002'') (ascii ''new'')
                   roller_world)) = msgs roller_world
   \<and> last (trace (snd (editrolllog bot_platform mod_interaction (ascii ''1000'') (ascii ''new'')
                          empty_world))) = Reply ModChannelNotSet
   \<and> msgs (snd (editrolllog bot_platform mod_interaction (ascii ''1000'') (ascii ''new'')
                   empty_world)) = msgs empty_world
   \<and> msgs (snd (editrolllog bot_platform mod_interaction (ascii ''1000'') (ascii ''new'')
                   roller_world)) (900, 1000) = Some \<lparr> author_id = 1, content = ascii ''new'' \<rparr>
   \<and> last (trace (snd (editrolllog bot_platform mod_interaction (ascii ''1000'') (ascii ''new'')
                          roller_world))) = Reply Edited"
proof -
  note ex = example_interaction example_roller_store
  have own: "last (trace (snd (editrolllog bot_platform mod_interaction (ascii ''1001'')
                 (ascii ''new'') roller_world))) = Reply NotOwnMessage
     \<and> msgs (snd (editrolllog bot_platform mod_interaction (ascii ''1001'') (ascii ''new'')
                   roller_world)) = msgs roller_world"
    using editrolllog_guards [where i = mod_interaction and g = guild7 and w = roller_world
        and P = bot_platform and s = "ascii ''1001''" and t = "ascii ''new''" and mc = 900
        and c = 900 and mid = 1001 and m = "\<lparr> author_id = 55, content = ascii ''hello'' \<rparr>"]
    by (simp add: ex py_int_examples respond_def)
  have num: "last (trace (snd (editrolllog bot_platform mod_interaction (ascii ''abc'')
                 (ascii ''new'') roller_world))) = Reply MessageIdNotNumber
     \<and> msgs (snd (editrolllog bot_platform mod_interaction (ascii ''abc'') (ascii ''new'')
                   roller_world)) = msgs roller_world"
    using editrolllog_guards [where i = mod_interaction and g = guild7 and w = roller_world
        and P = bot_platform and s = "ascii ''abc''" and t = "ascii ''new''" and mc = 900
        and c = 900]
    by (simp add: ex py_int_examples respond_def)
  have nf: "last (trace (snd (editrolllog bot_platform mod_interaction (ascii ''1002'')
                 (ascii ''new'') roller_world))) = Reply MessageNotFound
     \<and> msgs (snd (editrolllog bot_platform mod_interaction (ascii ''1002'') (ascii ''new'')
                   roller_world)) = msgs roller_world"
    using editrolllog_guards [where i = mod_interaction and g = guild7 and w = roller_world
        and P = bot_platform and s = "ascii ''1002''" and t = "ascii ''new''" and mc = 900
        and c = 900 and mid = 1002]
    by (simp add: ex py_int_examples respond_def)
  have ns: "last (trace (snd (editrolllog bot_platform mod_interaction (ascii ''1000'')
                 (ascii ''new'') empty_world))) = Reply ModChannelNotSet
     \<and> msgs (snd (editrolllog bot_platform mod_interaction (ascii ''1000'') (ascii ''new'')
                   empty_world)) = msgs empty_world"
    using editrolllog_guards [where i = mod_interaction and g = guild7 and w = empty_world
        and P = bot_platform and s = "ascii ''1000''" and t = "ascii ''new''"]
    by (simp add: ex truthy_def respond_def)
  have ok: "msgs (snd (editrolllog bot_platform mod_interaction (ascii ''1000'') (ascii ''new'')
                   roller_world)) (900, 1000) = Some \<lparr> author_id = 1, content = ascii ''new'' \<rparr>
     \<and> last (trace (snd (editrolllog bot_platform mod_interaction (ascii ''1000'') (ascii ''new'')
                          roller_world))) = Reply Edited"
    using editrolllog_guards [where i = mod_interaction and g = guild7 and w = roller_world
        and P = bot_platform and s = "ascii ''1000''" and t = "ascii ''new''" and mc = 900
        and c = 900 and mid = 1000 and m = "\<lparr> author_id = 1, content = ascii ''Roll Log'' \<rparr>"]
    by (simp add: ex py_int_examples)
  from example_interaction example_roller_store(10) own num nf ns ok show ?thesis
    by blast
qed


section \<open>Setting the odds\<close>

lemma py_isdigit_examples:
  "py_isdigit [178]" "py_isdigit (ascii ''25'')" "\<not> py_isdigit (ascii ''five'')"
  by (simp_all add: py_isdigit_def py_isdigit_char_def in_ranges_def decimal_ranges_def
        digit_only_ranges_def ascii_def)

lemma parts_superscript: "odds_parts (ascii ''a='' @ [178]) = [ascii ''a='' @ [178]]"
  by (simp add: odds_parts_def py_strip_def py_isspace_def in_ranges_def space_ranges_def
        ascii_def)

lemma parse_superscript: "parse_parts [ascii ''a='' @ [178]] [] = Crashed ValueError"
  by (simp add: py_split1_def py_strip_def py_isspace_def in_ranges_def space_ranges_def
        ascii_def py_isdigit_def py_isdigit_char_def decimal_ranges_def digit_only_ranges_def
        py_int_examples)

text \<open>What holds of \<open>setodds\<close>: the stored configuration changes only when the text
  parses and the parsed list is valid, and then the guild's outcomes are the parsed list
  and the configuration is written to the file.\<close>

lemma setodds_keeps_store_unless_valid:
  assumes "\<not> (\<exists>g parsed. i_guild i = Some g \<and> is_mod i
              \<and> parse_parts (odds_parts odds) [] = Parsed parsed
              \<and> fst (validate_outcomes (map outcome_dict parsed)))"
  shows "cfg (snd (setodds i odds w)) = cfg w \<and> disk (snd (setodds i odds w)) = disk w
       \<and> saves (snd (setodds i odds w)) = saves w"
proof (cases "i_guild i")
  case None
  then show ?thesis by (simp add: setodds_def respond_def)
next
  case (Some g)
  show ?thesis
  proof (cases "is_mod i")
    case False
    with Some show ?thesis by (simp add: setodds_def respond_def)
  next
    case True
    show ?thesis
    proof (cases "parse_parts (odds_parts odds) []")
      case (Parsed parsed)
      with assms Some True have n: "\<not> fst (validate_outcomes (map outcome_dict parsed))"
        by simp
      obtain ok msg where v: "validate_outcomes (map outcome_dict parsed) = (ok, msg)"
        by (cases "validate_outcomes (map outcome_dict parsed)")
      with n have "\<not> ok" by simp
      with Some True Parsed v show ?thesis
        by (simp add: setodds_def respond_def)
    next
      case (Rejected r)
      with Some True show ?thesis by (simp add: setodds_def respond_def)
    next
      case (Crashed e)
      with Some True show ?thesis by (simp add: setodds_def)
    qed
  qed
qed

lemma setodds_success:
  assumes "i_guild i = Some g" and "is_mod i"
    and "parse_parts (odds_parts odds) [] = Parsed parsed"
    and "fst (validate_outcomes (map outcome_dict parsed))"
  shows "fst (setodds i odds w) = None
       \<and> map_option outcomes (cfg (snd (setodds i odds w)) (guild_key (g_id g))) = Some parsed
       \<and> disk (snd (setodds i odds w)) = Some (cfg (snd (setodds i odds w)))
       \<and> last (trace (snd (setodds i odds w))) = Reply (OddsUpdated parsed)"
proof -
  obtain gc w1 where e: "get_guild_config w (g_id g) = (gc, w1)"
    by (cases "get_guild_config w (g_id g)")
  obtain ok msg where v: "validate_outcomes (map outcome_dict parsed) = (ok, msg)"
    by (cases "validate_outcomes (map outcome_dict parsed)")
  with assms(4) have ok by simp
  with assms(1-3) e v show ?thesis
    by (simp add: setodds_def respond_def save_config_def)
qed

lemma parse_example:
  "parse_parts (odds_parts (ascii ''powers, curse=25; powers, blessing=25; no powers=50'')) []
     = Parsed [\<lparr> name = ascii ''powers, curse'', weight = 25 \<rparr>,
               \<lparr> name = ascii ''powers, blessing'', weight = 25 \<rparr>,
               \<lparr> name = ascii ''no powers'', weight = 50 \<rparr>]"
proof -
  have p: "odds_parts (ascii ''powers, curse=25; powers, blessing=25; no powers=50'')
     = [ascii ''powers, curse=25'', ascii ''powers, blessing=25'', ascii ''no powers=50'']"
    by (simp add: odds_parts_def py_strip_def py_isspace_def in_ranges_def space_ranges_def
          ascii_def)
  have i: "py_int [50, 53] = Inr 25" "py_int [53, 48] = Inr 50"
    by (simp_all add: py_int_def is_ascii_digit_def c_isspace_def Let_def)
  show ?thesis
    unfolding p
    by (simp add: py_split1_def py_strip_def py_isspace_def in_ranges_def space_ranges_def
          ascii_def py_isdigit_def py_isdigit_char_def decimal_ranges_def i)
qed

lemma parse_mismatch:
  "parse_parts (odds_parts (ascii ''a=60;b=60'')) []
     = Parsed [\<lparr> name = ascii ''a'', weight = 60 \<rparr>, \<lparr> name = ascii ''b'', weight = 60 \<rparr>]"
proof -
  have p: "odds_parts (ascii ''a=60;b=60'') = [ascii ''a=60'', ascii ''b=60'']"
    by (simp add: odds_parts_def py_strip_def py_isspace_def in_ranges_def space_ranges_def
          ascii_def)
  have i: "py_int [54, 48] = Inr 60"
    by (simp add: py_int_def is_ascii_digit_def c_isspace_def Let_def)
  show ?thesis
    unfolding p
    by (simp add: py_split1_def py_strip_def py_isspace_def in_ranges_def space_ranges_def
          ascii_def py_isdigit_def py_isdigit_char_def decimal_ranges_def i)
qed

lemma parse_five:
  "parse_parts (odds_parts (ascii ''a=five'')) [] = Rejected (WeightNotInteger (ascii ''a=five''))"
proof -
  have p: "odds_parts (ascii ''a=five'') = [ascii ''a=five'']"
    by (simp add: odds_parts_def py_strip_def py_isspace_def in_ranges_def space_ranges_def
          ascii_def)
  show ?thesis
    unfolding p
    by (simp add: py_split1_def py_strip_def py_isspace_def in_ranges_def space_ranges_def
          ascii_def py_isdigit_def py_isdigit_char_def decimal_ranges_def digit_only_ranges_def)
qed

text \<open>The three examples of the specification.\<close>

lemma setodds_example_accepted:
  "fst (setodds mod_interaction
          (ascii ''powers, curse=25; powers, blessing=25; no powers=50'') w) = None
   \<and> map_option outcomes
        (cfg (snd (setodds mod_interaction
                     (ascii ''powers, curse=25; powers, blessing=25; no powers=50'') w))
           (guild_key 7))
      = Some [\<lparr> name = ascii ''powers, curse'', weight = 25 \<rparr>,
              \<lparr> name = ascii ''powers, blessing'', weight = 25 \<rparr>,
              \<lparr> name = ascii ''no powers'', weight = 50 \<rparr>]"
proof -
  let ?parsed = "[\<lparr> name = ascii ''powers, curse'', weight = 25 \<rparr>,
              \<lparr> name = ascii ''powers, blessing'', weight = 25 \<rparr>,
              \<lparr> name = ascii ''no powers'', weight = 50 \<rparr>]"
  have wf: "\<forall>e \<in> set (map outcome_dict ?parsed). well_formed e"
    by (simp add: well_formed_outcome_dict ascii_def py_isspace_def in_ranges_def
          space_ranges_def)
  have tw: "total_weight (map outcome_dict ?parsed) = 100"
    unfolding total_weight_outcome_dicts by simp
  from wf tw have v: "fst (validate_outcomes (map outcome_dict ?parsed))"
    by (simp add: validate_accept_iff)
  from setodds_success [OF example_interaction parse_example v, of w] show ?thesis
    by (simp add: example_guilds(4))
qed

lemma setodds_example_mismatch:
  "setodds mod_interaction (ascii ''a=60;b=60'') w
     = (None, respond (Invalid (ascii ''Outcome weights must total 100 (currently 120).'')) w)"
proof -
  let ?parsed = "[\<lparr> name = ascii ''a'', weight = 60 \<rparr>, \<lparr> name = ascii ''b'', weight = 60 \<rparr>]"
  have wf: "\<forall>e \<in> set (map outcome_dict ?parsed). well_formed e"
    by (simp add: well_formed_outcome_dict ascii_examples py_isspace_examples)
  have tw: "total_weight (map outcome_dict ?parsed) = 120"
    unfolding total_weight_outcome_dicts by simp
  have m: "msg_total 120 = ascii ''Outcome weights must total 100 (currently 120).''"
    by (simp add: msg_total_def py_str_int_def nat_str.simps ascii_def)
  from wf tw m validate_all_wf [of "map outcome_dict ?parsed"]
  have "validate_outcomes (map outcome_dict ?parsed)
          = (False, ascii ''Outcome weights must total 100 (currently 120).'')" by simp
  then show ?thesis
    using example_interaction parse_mismatch by (simp add: setodds_def)
qed

lemma setodds_example_five:
  "setodds mod_interaction (ascii ''a=five'') w
     = (None, respond (WeightNotInteger (ascii ''a=five'')) w)"
  using example_interaction parse_five by (simp add: setodds_def)

text \<open>
  C5, where the code departs from it. A weight written with a digit that \<open>isdigit\<close>
  accepts and \<open>int()\<close> rejects, such as the superscript two U+00B2, passes the check of
  line 183 and makes line 185 raise \<open>ValueError\<close>: the command ends with the exception,
  no reply is sent, and the state is unchanged.
\<close>

theorem setodds_superscript_weight_raises:
  "py_isdigit [178] \<and> py_int [178] = Inl ValueError
   \<and> setodds mod_interaction (ascii ''a='' @ [178]) w = (Some ValueError, w)"
proof -
  have p: "parse_parts (odds_parts (ascii ''a='' @ [178])) [] = Crashed ValueError"
    by (simp only: parts_superscript parse_superscript)
  have "setodds mod_interaction (ascii ''a='' @ [178]) w = (Some ValueError, w)"
    using example_interaction by (simp add: setodds_def p)
  with py_isdigit_examples(1) py_int_examples(7) show ?thesis by simp
qed

theorem setodds_superscript_weight_raises_witness:
  "py_isdigit [178] \<and> py_int [178] = Inl ValueError
   \<and> fst (setodds mod_interaction (ascii ''a='' @ [178]) roller_world) = Some ValueError
   \<and> trace (snd (setodds mod_interaction (ascii ''a='' @ [178]) roller_world)) = []
   \<and> cfg (snd (setodds mod_interaction (ascii ''a='' @ [178]) roller_world)) = cfg roller_world"
  using setodds_superscript_weight_raises [of roller_world] by (simp add: example_configs)


end
